theory Spec2Isabelle
  imports Main
begin

section \<open>Image retrieval of diffoci: package imagegetter\<close>

text \<open>
  The package \<^verbatim>\<open>imagegetter\<close> resolves a reference to an image record of the local
  store. It calls collaborators that are not part of the repository: the reference parser
  (\<^verbatim>\<open>refdocker.ParseDockerRef\<close>), \<^verbatim>\<open>os/exec\<close>, the decompressor, the transfer
  service, the image store and the platform check of containerd. The model takes them as
  the fields of a record of functions over an arbitrary world \<open>'w\<close>, threads the world
  through the calls in the order of the source, and records every call the package makes
  in a trace. Logging (\<^verbatim>\<open>log.G(ctx)\<close>) and the progress handler are left out.
\<close>

subsection \<open>Errors\<close>

text \<open>
  A Go \<^verbatim>\<open>error\<close>: the sentinels the package tests for or returns, any other error of
  a collaborator, and the values built by \<^verbatim>\<open>fmt.Errorf\<close>. An \<^verbatim>\<open>Errorf\<close> value keeps
  its format string and its arguments; \<open>ErrorfW\<close> is a format with one \<^verbatim>\<open>%w\<close> verb
  and carries the wrapped error.
\<close>

datatype fmtarg = AStr string | AStrs "string list"

datatype error =
    ErrNotFound
  | ErrUnavailable
  | ErrClosed
  | EOF
  | ErrOther string
  | Errorf string "fmtarg list"
  | ErrorfW string "fmtarg list" error

text \<open>\<^verbatim>\<open>errors.Is(err, target)\<close>: walks the chain of wrapped errors; a nil error matches
  no target.\<close>

fun errors_Is' :: "error \<Rightarrow> error \<Rightarrow> bool" where
  "errors_Is' (ErrorfW f as e) target = (ErrorfW f as e = target \<or> errors_Is' e target)"
| "errors_Is' e target = (e = target)"

definition errors_Is :: "error option \<Rightarrow> error \<Rightarrow> bool" where
  "errors_Is err target = (case err of None \<Rightarrow> False | Some e \<Rightarrow> errors_Is' e target)"

subsection \<open>Data\<close>

datatype platform = Platform (OS: string) (Architecture: string) (Variant: string)

datatype descriptor = Descriptor (MediaType: string) (Digest: string)

datatype image = Image (Name: string) (Target: descriptor)

text \<open>\<^verbatim>\<open>platforms.Any(plats...)\<close>, the matcher handed to \<^verbatim>\<open>images.Check\<close>.\<close>

datatype matcher = Any "platform list"

text \<open>The destination of a transfer: \<^verbatim>\<open>transimage.NewStore(ref, opts...)\<close>.\<close>

datatype store_opt =
    WithPlatforms "platform list"
  | WithAllMetadata
  | WithNamedPrefix string bool

datatype image_store = NewStore string "store_opt list"

text \<open>
  An \<^verbatim>\<open>io.Reader\<close>: \<^verbatim>\<open>Read(p)\<close> is given the length of \<^verbatim>\<open>p\<close> and returns the
  bytes it read and an error (\<open>None\<close> is nil).
\<close>

type_synonym 'w reader = "nat \<Rightarrow> 'w \<Rightarrow> (string \<times> error option) \<times> 'w"

text \<open>The source of a transfer: an archive import stream or a registry.\<close>

datatype 'w source =
    NewImageImportStream "'w reader" string
  | NewOCIRegistry string

subsection \<open>Collaborators\<close>

text \<open>
  \<open>ParseDockerRef\<close> is \<^verbatim>\<open>refdocker.ParseDockerRef\<close> followed by \<^verbatim>\<open>String()\<close>.
  \<open>ExitStatus\<close> is what \<^verbatim>\<open>dockerCmd.Wait()\<close> would report for the subprocess; the
  package never calls it. \<open>imageStore_Get\<close> and \<open>images_Check\<close> are queries and leave
  the world as it is.
\<close>

record 'w collab =
  ParseDockerRef :: "string \<Rightarrow> error + string"
  Getenv :: "string \<Rightarrow> 'w \<Rightarrow> string"
  StdoutPipe :: "string list \<Rightarrow> 'w \<Rightarrow> error option \<times> 'w"
  Start :: "string list \<Rightarrow> 'w \<Rightarrow> error option \<times> 'w"
  ExitStatus :: "string list \<Rightarrow> 'w \<Rightarrow> error option"
  PipeRead :: "'w reader"
  PipeClose :: "'w \<Rightarrow> error option \<times> 'w"
  DecompressStream :: "'w reader \<Rightarrow> 'w \<Rightarrow> (error + 'w reader) \<times> 'w"
  Transfer :: "'w source \<Rightarrow> image_store \<Rightarrow> 'w \<Rightarrow> error option \<times> 'w"
  imageStore_Get :: "string \<Rightarrow> 'w \<Rightarrow> error + image"
  images_Check :: "descriptor \<Rightarrow> matcher \<Rightarrow> 'w \<Rightarrow> error + bool"

subsection \<open>The trace of calls\<close>

datatype source_kind = ArchiveImport | Registry string

text \<open>Every event carries the arguments of the call and what the call returned.\<close>

datatype event =
    EvStdoutPipe "string list" "error option"
  | EvStart "string list" "error option"
  | EvDecompress "error option"
  | EvTransfer source_kind image_store "error option"
  | EvClose "error option"
  | EvStoreGet string "error + image"
  | EvCheck descriptor matcher "error + bool"

type_synonym 'w state = "event list \<times> 'w"

fun isPull :: "event \<Rightarrow> bool" where
  "isPull (EvTransfer (Registry ref) is r) = True"
| "isPull ev = False"

fun isImport :: "event \<Rightarrow> bool" where
  "isImport (EvTransfer ArchiveImport is r) = True"
| "isImport ev = False"

fun isTransfer :: "event \<Rightarrow> bool" where
  "isTransfer (EvTransfer k is r) = True"
| "isTransfer ev = False"

fun isSubprocess :: "event \<Rightarrow> bool" where
  "isSubprocess (EvStdoutPipe args r) = True"
| "isSubprocess (EvStart args r) = True"
| "isSubprocess ev = False"

fun isLookup :: "event \<Rightarrow> bool" where
  "isLookup (EvStoreGet name r) = True"
| "isLookup ev = False"

fun isCheck :: "event \<Rightarrow> bool" where
  "isCheck (EvCheck d m r) = True"
| "isCheck ev = False"

subsection \<open>Load and Pull\<close>

definition Load ::
  "'w collab \<Rightarrow> 'w reader \<Rightarrow> platform list \<Rightarrow> string \<Rightarrow> 'w state \<Rightarrow> error option \<times> 'w state"
where
  "Load g tarR plats foreknownRef s =
     (case DecompressStream g tarR (snd s) of
        (Inl err, w1) \<Rightarrow> (Some err, (fst s @ [EvDecompress (Some err)], w1))
      | (Inr decompressed, w1) \<Rightarrow>
          (let iis = NewImageImportStream decompressed [];
               sOpts = [WithPlatforms plats, WithPlatforms plats, WithAllMetadata,
                        WithNamedPrefix ''unused'' True];
               is = NewStore foreknownRef sOpts
           in case Transfer g iis is w1 of
                (Some err, w2) \<Rightarrow>
                  (Some (ErrorfW ''failed to load: %w'' [] err),
                   (fst s @ [EvDecompress None, EvTransfer ArchiveImport is (Some err)], w2))
              | (None, w2) \<Rightarrow>
                  (None, (fst s @ [EvDecompress None, EvTransfer ArchiveImport is None], w2))))"

definition Pull ::
  "'w collab \<Rightarrow> string \<Rightarrow> platform list \<Rightarrow> 'w state \<Rightarrow> error option \<times> 'w state"
where
  "Pull g ref plats s =
     (let reg = NewOCIRegistry ref;
          sOpts = [WithPlatforms plats];
          is = NewStore ref sOpts
      in case Transfer g reg is (snd s) of
           (Some err, w1) \<Rightarrow>
             (Some (ErrorfW ''failed to pull %q: %w'' [AStr ref] err),
              (fst s @ [EvTransfer (Registry ref) is (Some err)], w1))
         | (None, w1) \<Rightarrow> (None, (fst s @ [EvTransfer (Registry ref) is None], w1)))"

subsection \<open>Constants and prefixes\<close>

definition PullAlways :: string where "PullAlways = ''always''"
definition PullMissing :: string where "PullMissing = ''missing''"
definition PullNever :: string where "PullNever = ''never''"

definition dockerImagePrefix :: string where "dockerImagePrefix = ''docker://''"
definition podmanImagePrefix :: string where "podmanImagePrefix = ''podman://''"

definition HasPrefix :: "string \<Rightarrow> string \<Rightarrow> bool" where
  "HasPrefix s pre = (length pre \<le> length s \<and> take (length pre) s = pre)"

definition TrimPrefix :: "string \<Rightarrow> string \<Rightarrow> string" where
  "TrimPrefix s pre = (if HasPrefix s pre then drop (length pre) s else s)"

definition isDocker :: "string \<Rightarrow> bool" where
  "isDocker rawRef = HasPrefix rawRef dockerImagePrefix"

definition isPodman :: "string \<Rightarrow> bool" where
  "isPodman rawRef = HasPrefix rawRef podmanImagePrefix"

subsection \<open>The reader that turns a closed handle into the end of the stream\<close>

definition readerWithEOF_Read :: "'w reader \<Rightarrow> 'w reader" where
  "readerWithEOF_Read Reader len w =
     (case Reader len w of
        ((p, err), w') \<Rightarrow> ((p, if errors_Is err ErrClosed then Some EOF else err), w'))"

subsection \<open>Loading from a daemon\<close>

text \<open>
  \<open>loadDocker_started\<close> is the body of \<^verbatim>\<open>loadDocker\<close> after \<^verbatim>\<open>defer r.Close()\<close>;
  \<open>loadDocker\<close> runs the deferred close on every return of that body and drops its
  error.
\<close>

definition loadDocker_started ::
  "'w collab \<Rightarrow> string list \<Rightarrow> string \<Rightarrow> platform list \<Rightarrow> 'w state \<Rightarrow> (error + image) \<times> 'w state"
where
  "loadDocker_started g args name plats s =
     (case Start g args (snd s) of
        (Some err, w1) \<Rightarrow>
          (Inl (ErrorfW ''failed to run %v: %w'' [AStrs args] err),
           (fst s @ [EvStart args (Some err)], w1))
      | (None, w1) \<Rightarrow>
          (case Load g (readerWithEOF_Read (PipeRead g)) plats name
                  (fst s @ [EvStart args None], w1) of
             (Some err, s2) \<Rightarrow>
               (Inl (ErrorfW ''failed to load an archive (from %v): %w'' [AStrs args] err), s2)
           | (None, s2) \<Rightarrow>
               (case PipeClose g (snd s2) of
                  (Some err, w3) \<Rightarrow> (Inl err, (fst s2 @ [EvClose (Some err)], w3))
                | (None, w3) \<Rightarrow>
                    (case imageStore_Get g name w3 of
                       Inl err \<Rightarrow>
                         (Inl (ErrorfW
                            ''should have loaded an archive (from %v), but the loaded image is not accessible: %w''
                            [AStrs args] err),
                          (fst s2 @ [EvClose None, EvStoreGet name (Inl err)], w3))
                     | Inr img \<Rightarrow>
                         (let platMC = Any plats;
                              tr3 = fst s2 @ [EvClose None, EvStoreGet name (Inr img)]
                          in case images_Check g (Target img) platMC w3 of
                               Inl err \<Rightarrow>
                                 (Inl err, (tr3 @ [EvCheck (Target img) platMC (Inl err)], w3))
                             | Inr available \<Rightarrow>
                                 if \<not> available
                                 then (Inl (ErrorfW
                                         ''image %q lacks blobs for additional platforms: %w''
                                         [AStr name] ErrUnavailable),
                                       (tr3 @ [EvCheck (Target img) platMC (Inr False)], w3))
                                 else (Inr img,
                                       (tr3 @ [EvCheck (Target img) platMC (Inr True)], w3)))))))"

definition loadDocker ::
  "'w collab \<Rightarrow> string \<Rightarrow> string \<Rightarrow> platform list \<Rightarrow> 'w state \<Rightarrow> (error + image) \<times> 'w state"
where
  "loadDocker g docker name plats s =
     (let args = [docker, ''save'', name]
      in case StdoutPipe g args (snd s) of
           (Some err, w1) \<Rightarrow> (Inl err, (fst s @ [EvStdoutPipe args (Some err)], w1))
         | (None, w1) \<Rightarrow>
             (case loadDocker_started g args name plats (fst s @ [EvStdoutPipe args None], w1) of
                (res, s') \<Rightarrow>
                  (case PipeClose g (snd s') of
                     (err, w2) \<Rightarrow> (res, (fst s' @ [EvClose err], w2)))))"

definition getDocker ::
  "'w collab \<Rightarrow> string \<Rightarrow> platform list \<Rightarrow> 'w state \<Rightarrow> (error + image) \<times> 'w state"
where
  "getDocker g rawRef plats s =
     (let rawRefTrimmed = TrimPrefix rawRef dockerImagePrefix
      in case ParseDockerRef g rawRefTrimmed of
           Inl err \<Rightarrow> (Inl (ErrorfW ''failed to parse %q: %w'' [AStr rawRefTrimmed] err), s)
         | Inr name \<Rightarrow>
             (let docker = Getenv g ''DOCKER'' (snd s);
                  docker = (if docker = [] then ''docker'' else docker)
              in loadDocker g docker name plats s))"

definition getPodman ::
  "'w collab \<Rightarrow> string \<Rightarrow> platform list \<Rightarrow> 'w state \<Rightarrow> (error + image) \<times> 'w state"
where
  "getPodman g rawRef plats s =
     (let rawRefTrimmed = TrimPrefix rawRef podmanImagePrefix
      in case ParseDockerRef g rawRefTrimmed of
           Inl err \<Rightarrow> (Inl (ErrorfW ''failed to parse %q: %w'' [AStr rawRefTrimmed] err), s)
         | Inr name \<Rightarrow>
             (let podman = Getenv g ''PODMAN'' (snd s);
                  podman = (if podman = [] then ''podman'' else podman)
              in loadDocker g podman name plats s))"

subsection \<open>Get\<close>

text \<open>
  \<open>Get_checkPlatforms\<close> is the part of \<^verbatim>\<open>Get\<close> from the comment
  \<^verbatim>\<open>// Check platforms\<close> to the end, which the source reaches with the record of the
  first lookup or with the record of the lookup after a pull.
\<close>

definition Get_checkPlatforms ::
  "'w collab \<Rightarrow> string \<Rightarrow> platform list \<Rightarrow> string \<Rightarrow> image \<Rightarrow> 'w state \<Rightarrow> (error + image) \<times> 'w state"
where
  "Get_checkPlatforms g name plats pullMode img s =
     (let platMC = Any plats
      in case images_Check g (Target img) platMC (snd s) of
           Inl err \<Rightarrow> (Inl err, (fst s @ [EvCheck (Target img) platMC (Inl err)], snd s))
         | Inr available \<Rightarrow>
             (let s1 = (fst s @ [EvCheck (Target img) platMC (Inr available)], snd s)
              in if \<not> available then
                   if pullMode = PullNever
                   then (Inl (ErrorfW ''image %q lacks blobs for additional platforms: %w''
                                [AStr name] ErrUnavailable), s1)
                   else (case Pull g name plats s1 of
                           (Some err, s2) \<Rightarrow>
                             (Inl (ErrorfW ''failed to pull %q: %w'' [AStr name] err), s2)
                         | (None, s2) \<Rightarrow> (Inr img, s2))
                 else (Inr img, s1)))"

text \<open>
  \<open>Get_lookup\<close> is the part of \<^verbatim>\<open>Get\<close> from the comment \<^verbatim>\<open>// Get the image object\<close>
  on: the lookup, the pull and the second lookup when the record is not found, and the
  platform check.
\<close>

definition Get_lookup ::
  "'w collab \<Rightarrow> string \<Rightarrow> platform list \<Rightarrow> string \<Rightarrow> 'w state \<Rightarrow> (error + image) \<times> 'w state"
where
  "Get_lookup g name plats pullMode s =
     (case imageStore_Get g name (snd s) of
        Inr img \<Rightarrow>
          Get_checkPlatforms g name plats pullMode img
            (fst s @ [EvStoreGet name (Inr img)], snd s)
      | Inl err \<Rightarrow>
          (let s1 = (fst s @ [EvStoreGet name (Inl err)], snd s)
           in if errors_Is (Some err) ErrNotFound \<and> pullMode \<noteq> PullNever then
                (case Pull g name plats s1 of
                   (Some pullErr, s2) \<Rightarrow>
                     (Inl (ErrorfW ''failed to pull %q: %w'' [AStr name] pullErr), s2)
                 | (None, s2) \<Rightarrow>
                     (case imageStore_Get g name (snd s2) of
                        Inl retryErr \<Rightarrow>
                          (Inl (ErrorfW
                             ''should have pulled %q, but still not accessible in the local store: %w''
                             [AStr name] retryErr),
                           (fst s2 @ [EvStoreGet name (Inl retryErr)], snd s2))
                      | Inr img \<Rightarrow>
                          Get_checkPlatforms g name plats pullMode img
                            (fst s2 @ [EvStoreGet name (Inr img)], snd s2)))
              else (Inl (ErrorfW ''failed to get image %q: %w'' [AStr name] err), s1)))"

definition Get ::
  "'w collab \<Rightarrow> string \<Rightarrow> platform list \<Rightarrow> string \<Rightarrow> 'w state \<Rightarrow> (error + image) \<times> 'w state"
where
  "Get g rawRef plats pullMode s =
     (if isDocker rawRef then getDocker g rawRef plats s
      else if isPodman rawRef then getPodman g rawRef plats s
      else case ParseDockerRef g rawRef of
             Inl err \<Rightarrow> (Inl (ErrorfW ''failed to parse %q: %w'' [AStr rawRef] err), s)
           | Inr name \<Rightarrow>
               if pullMode = PullAlways then
                 (case Pull g name plats s of
                    (Some err, s1) \<Rightarrow>
                      (Inl (ErrorfW ''failed to pull %q: %w'' [AStr name] err), s1)
                  | (None, s1) \<Rightarrow> Get_lookup g name plats pullMode s1)
               else if pullMode = PullMissing \<or> pullMode = PullNever then
                 Get_lookup g name plats pullMode s
               else (Inl (Errorf ''unknown pull mode %q'' [AStr pullMode]), s))"

subsection \<open>Reference kinds and the pulls of a trace\<close>

text \<open>
  A registry-kind reference: one that has neither daemon prefix and that the parser
  accepts, with the canonical name the parser returns for it.
\<close>

definition registryRef :: "'w collab \<Rightarrow> string \<Rightarrow> string \<Rightarrow> bool" where
  "registryRef g rawRef name =
     (\<not> isDocker rawRef \<and> \<not> isPodman rawRef \<and> ParseDockerRef g rawRef = Inr name)"

text \<open>The event that \<^verbatim>\<open>Pull\<close> of a name with a platform list leaves in the trace,
  with the result of the transfer.\<close>

definition pullEv :: "string \<Rightarrow> platform list \<Rightarrow> error option \<Rightarrow> event" where
  "pullEv name plats r = EvTransfer (Registry name) (NewStore name [WithPlatforms plats]) r"

text \<open>The event that \<^verbatim>\<open>Load\<close> leaves for its import transfer.\<close>

definition importEv :: "string \<Rightarrow> platform list \<Rightarrow> error option \<Rightarrow> event" where
  "importEv name plats r =
     EvTransfer ArchiveImport
       (NewStore name [WithPlatforms plats, WithPlatforms plats, WithAllMetadata,
                       WithNamedPrefix ''unused'' True]) r"

subsection \<open>The completeness check of the specification\<close>

text \<open>
  Modelled from the spec: the platform-completeness check, which the package delegates to
  \<^verbatim>\<open>platforms.Any\<close> and \<^verbatim>\<open>images.Check\<close> of containerd; neither is in the
  repository. The specification says: a record whose descriptor's checked platform set is
  a superset of the requested platform set is reported complete; a record missing any
  requested platform is reported incomplete; the empty set is interpreted as "match any
  platform". \<open>present\<close> lists the platforms whose blobs the store holds for the
  descriptor.
\<close>

definition platformComplete :: "platform list \<Rightarrow> platform list \<Rightarrow> bool" where
  "platformComplete present plats = list_all (\<lambda>p. p \<in> set present) plats"

text \<open>
  Modelled from the spec: \<^verbatim>\<open>images.Check\<close> with the matcher
  \<^verbatim>\<open>platforms.Any(plats...)\<close>, as the check of the specification over the platforms
  that the world holds blobs of: it never fails, and reports whether the record is
  complete.
\<close>

fun specCheck ::
  "('w \<Rightarrow> descriptor \<Rightarrow> platform list) \<Rightarrow> descriptor \<Rightarrow> matcher \<Rightarrow> 'w \<Rightarrow> error + bool"
where
  "specCheck present d (Any plats) w = Inr (platformComplete (present w d) plats)"

section \<open>A simulated world\<close>

text \<open>
  One instance of the collaborators, small enough to run: a daemon that exports the images
  it holds, a registry, a store with its blobs, and a subprocess whose output is read in
  chunks. The theorems below hold for every instance; this one supplies the concrete runs.
\<close>

record world =
  environ :: "(string \<times> string) list"
  installed :: "string list"
  daemonImages :: "(string \<times> descriptor \<times> platform list) list"
  exitCode :: nat
  pipe :: "string list"
  handleClosed :: bool
  remote :: "(string \<times> descriptor \<times> platform list) list"
  stored :: "(string \<times> image) list"
  blobs :: "(descriptor \<times> platform) list"
  storeFault :: "error option"

text \<open>
  The parser of the simulated world normalises a familiar name the way the reference
  grammar of Docker does: a name without a registry host is put under
  \<^verbatim>\<open>docker.io\<close> (and under \<^verbatim>\<open>library/\<close> when it has no path), and a name with
  neither tag nor digest gets the tag \<^verbatim>\<open>latest\<close>.
\<close>

definition simParse :: "string \<Rightarrow> error + string" where
  "simParse s =
     (if s = [] \<or> CHR '' '' \<in> set s then Inl (ErrOther ''invalid reference format'')
      else
        let host = takeWhile (\<lambda>c. c \<noteq> CHR ''/'') s;
            full =
              (if host = s then ''docker.io/library/'' @ s
               else if CHR ''.'' \<notin> set host \<and> CHR '':'' \<notin> set host \<and> host \<noteq> ''localhost''
               then ''docker.io/'' @ s
               else s);
            lastPart = rev (takeWhile (\<lambda>c. c \<noteq> CHR ''/'') (rev full))
        in Inr (if CHR '':'' \<in> set lastPart \<or> CHR ''@'' \<in> set lastPart then full
                else full @ '':latest''))"

definition simGetenv :: "string \<Rightarrow> world \<Rightarrow> string" where
  "simGetenv k w = (case map_of (environ w) k of None \<Rightarrow> [] | Some v \<Rightarrow> v)"

definition simStdoutPipe :: "string list \<Rightarrow> world \<Rightarrow> error option \<times> world" where
  "simStdoutPipe args w = (None, w)"

definition simStart :: "string list \<Rightarrow> world \<Rightarrow> error option \<times> world" where
  "simStart args w =
     (case args of
        [bin, verb, name] \<Rightarrow>
          if bin \<in> set (installed w) then
            (None, w\<lparr>pipe := (case map_of (daemonImages w) name of
                                None \<Rightarrow> []
                              | Some x \<Rightarrow> [''manifest.json'', ''layer.tar''])\<rparr>)
          else (Some (ErrorfW ''exec: %q: %w'' [AStr bin]
                        (ErrOther ''executable file not found in $PATH'')), w)
      | _ \<Rightarrow> (Some (ErrOther ''exec: no command''), w))"

definition simExitStatus :: "string list \<Rightarrow> world \<Rightarrow> error option" where
  "simExitStatus args w = (if exitCode w = 0 then None else Some (ErrOther ''exit status 1''))"

definition simPipeRead :: "world reader" where
  "simPipeRead len w =
     (case pipe w of
        c # cs \<Rightarrow> ((c, None), w\<lparr>pipe := cs\<rparr>)
      | [] \<Rightarrow>
          (([], Some (if handleClosed w
                      then ErrorfW ''read |0: %w'' [] ErrClosed
                      else EOF)), w))"

definition simPipeClose :: "world \<Rightarrow> error option \<times> world" where
  "simPipeClose w = (None, w\<lparr>handleClosed := True\<rparr>)"

definition simDecompressStream :: "world reader \<Rightarrow> world \<Rightarrow> (error + world reader) \<times> world" where
  "simDecompressStream r w = (Inr r, w)"

text \<open>Reads a stream to its end: \<open>None\<close> when the end is \<^verbatim>\<open>io.EOF\<close>.\<close>

fun drain :: "nat \<Rightarrow> 'w reader \<Rightarrow> 'w \<Rightarrow> error option \<times> 'w" where
  "drain 0 r w = (Some (ErrOther ''stream does not end''), w)"
| "drain (Suc n) r w =
     (case r 4096 w of
        ((p, None), w') \<Rightarrow> drain n r w'
      | ((p, Some e), w') \<Rightarrow> (if e = EOF then None else Some e, w'))"

fun optPlatforms :: "store_opt list \<Rightarrow> platform list" where
  "optPlatforms [] = []"
| "optPlatforms (WithPlatforms ps # opts) = ps"
| "optPlatforms (opt # opts) = optPlatforms opts"

fun simTransfer :: "world source \<Rightarrow> image_store \<Rightarrow> world \<Rightarrow> error option \<times> world" where
  "simTransfer (NewImageImportStream r prefix) (NewStore name opts) w =
     (case drain (Suc (length (pipe w))) r w of
        (Some e, w') \<Rightarrow> (Some e, w')
      | (None, w') \<Rightarrow>
          (case map_of (daemonImages w') name of
             None \<Rightarrow> (Some (ErrOther ''unrecognized image format''), w')
           | Some (d, ps) \<Rightarrow>
               (None, w'\<lparr>stored := (name, Image name d) # stored w',
                         blobs := map (Pair d) ps @ blobs w'\<rparr>)))"
| "simTransfer (NewOCIRegistry ref) (NewStore name opts) w =
     (case map_of (remote w) ref of
        None \<Rightarrow> (Some (ErrorfW ''failed to resolve reference %q: %w'' [AStr ref] ErrNotFound), w)
      | Some (d, ps) \<Rightarrow>
          (None, w\<lparr>stored := (name, Image name d) # stored w,
                   blobs := map (Pair d) (filter (\<lambda>p. p \<in> set (optPlatforms opts)) ps) @ blobs w\<rparr>))"

definition simStoreGet :: "string \<Rightarrow> world \<Rightarrow> error + image" where
  "simStoreGet name w =
     (case storeFault w of
        Some e \<Rightarrow> Inl e
      | None \<Rightarrow>
          (case map_of (stored w) name of
             None \<Rightarrow> Inl (ErrorfW ''image %q: %w'' [AStr name] ErrNotFound)
           | Some img \<Rightarrow> Inr img))"

definition simPresent :: "world \<Rightarrow> descriptor \<Rightarrow> platform list" where
  "simPresent w d = map snd (filter (\<lambda>b. fst b = d) (blobs w))"

definition sim :: "world collab" where
  "sim = \<lparr>ParseDockerRef = simParse, Getenv = simGetenv, StdoutPipe = simStdoutPipe,
          Start = simStart, ExitStatus = simExitStatus, PipeRead = simPipeRead,
          PipeClose = simPipeClose, DecompressStream = simDecompressStream,
          Transfer = simTransfer, imageStore_Get = simStoreGet,
          images_Check = specCheck simPresent\<rparr>"

definition linuxAmd64 :: platform where "linuxAmd64 = Platform ''linux'' ''amd64'' []"
definition linuxArm64 :: platform where "linuxArm64 = Platform ''linux'' ''arm64'' ''v8''"

definition dMyimage :: descriptor where
  "dMyimage = Descriptor ''application/vnd.docker.distribution.manifest.v2+json'' ''sha256:1111''"

definition dApp :: descriptor where
  "dApp = Descriptor ''application/vnd.oci.image.index.v1+json'' ''sha256:2222''"

definition w0 :: world where
  "w0 = \<lparr>environ = [], installed = [''docker'', ''podman''],
         daemonImages = [(''docker.io/library/myimage:latest'', dMyimage, [linuxAmd64])],
         exitCode = 0, pipe = [], handleClosed = False,
         remote = [(''registry.example/app:v1'', dApp, [linuxAmd64])],
         stored = [], blobs = [], storeFault = None\<rparr>"

definition appV1 :: string where "appV1 = ''registry.example/app:v1''"
definition appV2 :: string where "appV2 = ''registry.example/app:v2''"

text \<open>The record of \<open>appV1\<close> is in the store with the blobs of linux/amd64.\<close>

definition wStored :: world where
  "wStored = w0\<lparr>stored := [(appV1, Image appV1 dApp)], blobs := [(dApp, linuxAmd64)]\<rparr>"

text \<open>The record of \<open>appV2\<close> is in the store without blobs, and no registry offers it.\<close>

definition wPartial :: world where
  "wPartial = w0\<lparr>stored := [(appV2, Image appV2 dApp)]\<rparr>"

text \<open>A store that cannot be read, and a store that finds nothing.\<close>

definition wFault :: world where
  "wFault = w0\<lparr>storeFault := Some (ErrOther ''database not open'')\<rparr>"

definition wLost :: world where
  "wLost = w0\<lparr>storeFault := Some ErrNotFound\<rparr>"

text \<open>The export subprocess ends with exit status 1 after writing its archive.\<close>

definition wExit1 :: world where
  "wExit1 = w0\<lparr>exitCode := 1\<rparr>"

text \<open>The handle of the pipe is closed when the last chunk has been read.\<close>

definition wClosed :: world where
  "wClosed = w0\<lparr>handleClosed := True\<rparr>"

text \<open>No daemon binary is installed.\<close>

definition wNoDaemon :: world where
  "wNoDaemon = w0\<lparr>installed := []\<rparr>"

section \<open>Properties\<close>

subsection \<open>Auxiliary facts\<close>

lemma modes [simp]:
  "PullAlways \<noteq> PullMissing" "PullAlways \<noteq> PullNever" "PullMissing \<noteq> PullNever"
  "PullMissing \<noteq> PullAlways" "PullNever \<noteq> PullAlways" "PullNever \<noteq> PullMissing"
  by (simp_all add: PullAlways_def PullMissing_def PullNever_def)

lemmas Get_defs =
  Get_def registryRef_def Get_lookup_def Get_checkPlatforms_def Pull_def pullEv_def Let_def

lemmas daemon_defs =
  getDocker_def getPodman_def loadDocker_def loadDocker_started_def Load_def importEv_def Let_def

lemma run_cases:
  obtains res tr w' where "r = (res, (tr, w'))"
  by (cases r) auto

lemma Pull_run:
  "Transfer g (NewOCIRegistry name) (NewStore name [WithPlatforms plats]) w = (perr, w1) \<Longrightarrow>
   Pull g name plats (tr, w) =
     (map_option (ErrorfW ''failed to pull %q: %w'' [AStr name]) perr,
      (tr @ [pullEv name plats perr], w1))"
  by (simp add: Pull_def pullEv_def Let_def split: option.splits)

text \<open>The platform check under a policy that allows pulling: either the check does not
  report the record incomplete and nothing follows it, or one pull follows it.\<close>

lemma checkPlatforms_run:
  assumes "Get_checkPlatforms g name plats pullMode img (pre, w) = (res, (tr, w'))"
    and "pullMode \<noteq> PullNever"
  shows "(\<exists>r. r \<noteq> Inr False \<and> tr = pre @ [EvCheck (Target img) (Any plats) r]) \<or>
         (\<exists>perr. tr = pre @ [EvCheck (Target img) (Any plats) (Inr False), pullEv name plats perr] \<and>
            (case perr of
               None \<Rightarrow> res = Inr img
             | Some e \<Rightarrow> res = Inl (ErrorfW ''failed to pull %q: %w'' [AStr name]
                              (ErrorfW ''failed to pull %q: %w'' [AStr name] e))))"
  using assms
  by (auto simp: Get_checkPlatforms_def Pull_def pullEv_def Let_def
           split: sum.splits if_splits option.splits prod.splits)

lemma checkPlatforms_extends:
  "Get_checkPlatforms g name plats pullMode img (pre, w) = (res, (tr, w')) \<Longrightarrow> \<exists>post. tr = pre @ post"
  by (auto simp: Get_checkPlatforms_def Pull_def Let_def
           split: sum.splits if_splits option.splits prod.splits)

text \<open>A run of the lookup part either makes no platform check or ends in the platform
  check of a record that a lookup has just returned.\<close>

lemma lookup_reaches_check:
  assumes run: "Get_lookup g name plats pullMode (pre0, w) = (res, (tr, w'))"
    and pre0: "filter isCheck pre0 = []"
  shows "filter isCheck tr = [] \<or>
         (\<exists>pre img wc. filter isCheck pre = [] \<and>
            Get_checkPlatforms g name plats pullMode img (pre @ [EvStoreGet name (Inr img)], wc)
              = (res, (tr, w')))"
proof (cases "imageStore_Get g name w")
  case (Inr img)
  with run have "Get_checkPlatforms g name plats pullMode img (pre0 @ [EvStoreGet name (Inr img)], w)
                   = (res, (tr, w'))"
    by (simp add: Get_lookup_def)
  with pre0 show ?thesis by blast
next
  case (Inl err)
  obtain perr w1 where
    t: "Transfer g (NewOCIRegistry name) (NewStore name [WithPlatforms plats]) w = (perr, w1)"
    by (cases "Transfer g (NewOCIRegistry name) (NewStore name [WithPlatforms plats]) w")
  let ?pre1 = "pre0 @ [EvStoreGet name (Inl err), pullEv name plats perr]"
  have pre1: "filter isCheck ?pre1 = []"
    using pre0 by (simp add: pullEv_def)
  show ?thesis
  proof (cases "errors_Is (Some err) ErrNotFound \<and> pullMode \<noteq> PullNever \<and> perr = None")
    case False
    with run Inl t pre0 have "filter isCheck tr = []"
      by (auto simp: Get_lookup_def Let_def Pull_run [OF t] pullEv_def split: if_splits)
    then show ?thesis ..
  next
    case True
    show ?thesis
    proof (cases "imageStore_Get g name w1")
      case (Inl retryErr)
      with run \<open>imageStore_Get g name w = Inl err\<close> t True pre0 have "filter isCheck tr = []"
        by (auto simp: Get_lookup_def Let_def Pull_run [OF t] pullEv_def)
      then show ?thesis ..
    next
      case (Inr img)
      with run \<open>imageStore_Get g name w = Inl err\<close> t True
      have "Get_checkPlatforms g name plats pullMode img (?pre1 @ [EvStoreGet name (Inr img)], w1)
              = (res, (tr, w'))"
        by (simp add: Get_lookup_def Let_def Pull_run [OF t])
      with pre1 show ?thesis by blast
    qed
  qed
qed

text \<open>A run of \<open>Get\<close> on a registry-kind reference with a recognised policy is a run of
  the lookup part, after at most the unconditional pull, unless that pull failed.\<close>

lemma Get_reaches_lookup:
  assumes reg: "registryRef g rawRef name"
    and mode: "pullMode \<in> {PullAlways, PullMissing, PullNever}"
    and run: "Get g rawRef plats pullMode ([], w) = (res, (tr, w'))"
  shows "filter isCheck tr = [] \<or>
         (\<exists>pre0 wl. filter isCheck pre0 = [] \<and>
            Get_lookup g name plats pullMode (pre0, wl) = (res, (tr, w')))"
proof -
  obtain perr0 w0 where
    t: "Transfer g (NewOCIRegistry name) (NewStore name [WithPlatforms plats]) w = (perr0, w0)"
    by (cases "Transfer g (NewOCIRegistry name) (NewStore name [WithPlatforms plats]) w")
  show ?thesis
  proof (cases "pullMode = PullAlways")
    case False
    with mode reg run have "Get_lookup g name plats pullMode ([], w) = (res, (tr, w'))"
      by (auto simp: Get_def registryRef_def)
    then show ?thesis by (metis filter.simps(1))
  next
    case True
    show ?thesis
    proof (cases perr0)
      case None
      with True reg run t
      have "Get_lookup g name plats pullMode ([pullEv name plats None], w0) = (res, (tr, w'))"
        by (simp add: Get_def registryRef_def Pull_run [OF t])
      moreover have "filter isCheck [pullEv name plats None] = []"
        by (simp add: pullEv_def)
      ultimately show ?thesis by blast
    next
      case (Some e)
      with True reg run t have "tr = [pullEv name plats (Some e)]"
        by (auto simp: Get_def registryRef_def Pull_run [OF t])
      then show ?thesis by (simp add: pullEv_def)
    qed
  qed
qed

subsection \<open>An unrecognised pull policy\<close>

text \<open>
  C1, as stated: every call with a pull policy outside
  \<open>{''always'', ''missing'', ''never''}\<close> fails with the error of the unrecognised
  policy before any I/O, for every reference kind. It is false for a reference with a
  daemon prefix: \<^verbatim>\<open>Get\<close> hands such a reference to the daemon loader before it looks
  at the policy. In the simulated world the call below, with the policy \<open>''bogus''\<close>,
  starts the export subprocess, imports the archive, looks the record up and returns it.
\<close>

theorem Get_unknown_pull_mode_daemon_counterexample:
  "''bogus'' \<notin> {PullAlways, PullMissing, PullNever} \<and>
   fst (Get sim ''docker://myimage:latest'' [] ''bogus'' ([], w0)) =
     Inr (Image ''docker.io/library/myimage:latest'' dMyimage) \<and>
   fst (snd (Get sim ''docker://myimage:latest'' [] ''bogus'' ([], w0))) =
     [EvStdoutPipe [''docker'', ''save'', ''docker.io/library/myimage:latest''] None,
      EvStart [''docker'', ''save'', ''docker.io/library/myimage:latest''] None,
      EvDecompress None,
      importEv ''docker.io/library/myimage:latest'' [] None,
      EvClose None,
      EvStoreGet ''docker.io/library/myimage:latest''
        (Inr (Image ''docker.io/library/myimage:latest'' dMyimage)),
      EvCheck dMyimage (Any []) (Inr True),
      EvClose None]"
  by code_simp

text \<open>
  C1, amended: for a registry-kind reference (no daemon prefix, accepted by the parser) a
  pull policy outside the three values makes \<open>Get\<close> return the error
  \<^verbatim>\<open>unknown pull mode\<close> with the trace and the world untouched: no subprocess, no
  transfer, no lookup. For a reference with a daemon prefix the policy is not consulted:
  the call does the same for every policy value.
\<close>

theorem Get_unknown_pull_mode:
  "pullMode \<notin> {PullAlways, PullMissing, PullNever} \<Longrightarrow>
     (registryRef g rawRef name \<longrightarrow>
        Get g rawRef plats pullMode s =
          (Inl (Errorf ''unknown pull mode %q'' [AStr pullMode]), s)) \<and>
     (isDocker rawRef \<or> isPodman rawRef \<longrightarrow>
        Get g rawRef plats pullMode s = Get g rawRef plats pullMode' s)"
  by (simp add: Get_def registryRef_def)

theorem Get_unknown_pull_mode_witness:
  "''bogus'' \<notin> {PullAlways, PullMissing, PullNever} \<and>
   registryRef sim appV1 appV1 \<and>
   Get sim appV1 [linuxAmd64] ''bogus'' ([], w0) =
     (Inl (Errorf ''unknown pull mode %q'' [AStr ''bogus'']), ([], w0)) \<and>
   isDocker ''docker://myimage:latest'' \<and>
   Get sim ''docker://myimage:latest'' [] ''bogus'' ([], w0) =
     Get sim ''docker://myimage:latest'' [] PullNever ([], w0)"
proof -
  have h: "''bogus'' \<notin> {PullAlways, PullMissing, PullNever}"
    by (simp add: PullAlways_def PullMissing_def PullNever_def)
  have r: "registryRef sim appV1 appV1" by code_simp
  have d: "isDocker ''docker://myimage:latest''" by code_simp
  show ?thesis
    using h r d
      Get_unknown_pull_mode [OF h, of sim appV1 appV1 "[linuxAmd64]" "([], w0)" PullNever]
      Get_unknown_pull_mode [OF h, of sim "''docker://myimage:latest''" appV1 "[]" "([], w0)"
        PullNever]
    by simp
qed

subsection \<open>Policy never\<close>

text \<open>
  C3. For a registry-kind reference under the policy \<open>never\<close>, \<open>Get\<close> makes no
  transfer and starts no subprocess, and leaves the world as it was. If the lookup fails,
  \<open>Get\<close> fails with the lookup error wrapped with the name, which matches
  \<^verbatim>\<open>ErrNotFound\<close> when the lookup error does, after the lookup alone. If the record is
  found and the check reports that blobs are missing, \<open>Get\<close> fails with an error that
  wraps \<^verbatim>\<open>ErrUnavailable\<close>, after the lookup and the check alone.
\<close>

theorem Get_never:
  assumes "registryRef g rawRef name" and "pullMode = PullNever"
    and "Get g rawRef plats pullMode ([], w) = (res, (tr, w'))"
  shows "filter isTransfer tr = [] \<and> filter isSubprocess tr = [] \<and> w' = w \<and>
    (imageStore_Get g name w = Inl err \<longrightarrow>
       res = Inl (ErrorfW ''failed to get image %q: %w'' [AStr name] err) \<and>
       tr = [EvStoreGet name (Inl err)] \<and>
       (errors_Is (Some err) ErrNotFound \<longrightarrow>
          errors_Is (Some (ErrorfW ''failed to get image %q: %w'' [AStr name] err)) ErrNotFound)) \<and>
    (imageStore_Get g name w = Inr img \<and>
     images_Check g (Target img) (Any plats) w = Inr False \<longrightarrow>
       res = Inl (ErrorfW ''image %q lacks blobs for additional platforms: %w''
                    [AStr name] ErrUnavailable) \<and>
       errors_Is (Some (ErrorfW ''image %q lacks blobs for additional platforms: %w''
                          [AStr name] ErrUnavailable)) ErrUnavailable \<and>
       tr = [EvStoreGet name (Inr img), EvCheck (Target img) (Any plats) (Inr False)])"
  using assms
  by (auto simp: Get_defs errors_Is_def split: sum.splits if_splits)

theorem Get_never_witness:
  "registryRef sim appV1 appV1 \<and>
   imageStore_Get sim appV1 w0 = Inl (ErrorfW ''image %q: %w'' [AStr appV1] ErrNotFound) \<and>
   Get sim appV1 [linuxAmd64] PullNever ([], w0) =
     (Inl (ErrorfW ''failed to get image %q: %w'' [AStr appV1]
            (ErrorfW ''image %q: %w'' [AStr appV1] ErrNotFound)),
      ([EvStoreGet appV1 (Inl (ErrorfW ''image %q: %w'' [AStr appV1] ErrNotFound))], w0)) \<and>
   registryRef sim appV2 appV2 \<and>
   imageStore_Get sim appV2 wPartial = Inr (Image appV2 dApp) \<and>
   images_Check sim dApp (Any [linuxAmd64]) wPartial = Inr False \<and>
   Get sim appV2 [linuxAmd64] PullNever ([], wPartial) =
     (Inl (ErrorfW ''image %q lacks blobs for additional platforms: %w'' [AStr appV2]
            ErrUnavailable),
      ([EvStoreGet appV2 (Inr (Image appV2 dApp)),
        EvCheck dApp (Any [linuxAmd64]) (Inr False)], wPartial))"
proof -
  have r1: "registryRef sim appV1 appV1" by code_simp
  have l1: "imageStore_Get sim appV1 w0 = Inl (ErrorfW ''image %q: %w'' [AStr appV1] ErrNotFound)"
    by code_simp
  obtain res1 tr1 w1 where
    run1: "Get sim appV1 [linuxAmd64] PullNever ([], w0) = (res1, (tr1, w1))"
    by (rule run_cases)
  have r2: "registryRef sim appV2 appV2" by code_simp
  have l2: "imageStore_Get sim appV2 wPartial = Inr (Image appV2 dApp)" by code_simp
  have c2: "images_Check sim (Target (Image appV2 dApp)) (Any [linuxAmd64]) wPartial = Inr False"
    by code_simp
  obtain res2 tr2 w2 where
    run2: "Get sim appV2 [linuxAmd64] PullNever ([], wPartial) = (res2, (tr2, w2))"
    by (rule run_cases)
  show ?thesis
    using r1 l1 run1 r2 l2 c2 run2
      Get_never [OF r1 refl run1,
        where err = "ErrorfW ''image %q: %w'' [AStr appV1] ErrNotFound"]
      Get_never [OF r2 refl run2, where img = "Image appV2 dApp"]
    by simp
qed

subsection \<open>Policy always\<close>

text \<open>
  C5. For a registry-kind reference under the policy \<open>always\<close>, the events of \<open>Get\<close>
  before its first store lookup are exactly one pull of the name with the requested
  platforms, whatever the store holds. If that pull fails, \<open>Get\<close> returns its error,
  wrapped, and the pull is the whole trace: no lookup follows. If it succeeds, the lookup
  is the next event.
\<close>

theorem Get_always:
  assumes "registryRef g rawRef name" and "pullMode = PullAlways"
    and "Transfer g (NewOCIRegistry name) (NewStore name [WithPlatforms plats]) w = (perr, w1)"
    and "Get g rawRef plats pullMode ([], w) = (res, (tr, w'))"
  shows "takeWhile (\<lambda>ev. \<not> isLookup ev) tr = [pullEv name plats perr] \<and>
    (perr = Some e \<longrightarrow>
       res = Inl (ErrorfW ''failed to pull %q: %w'' [AStr name]
                   (ErrorfW ''failed to pull %q: %w'' [AStr name] e)) \<and>
       tr = [pullEv name plats perr] \<and> w' = w1) \<and>
    (perr = None \<longrightarrow>
       take 2 tr = [pullEv name plats None, EvStoreGet name (imageStore_Get g name w1)])"
  using assms
  by (auto simp: Get_defs split: sum.splits if_splits option.splits prod.splits)

theorem Get_always_witness:
  "registryRef sim appV1 appV1 \<and>
   imageStore_Get sim appV1 wStored = Inr (Image appV1 dApp) \<and>
   fst (Transfer sim (NewOCIRegistry appV1) (NewStore appV1 [WithPlatforms [linuxAmd64]]) wStored)
     = None \<and>
   fst (snd (Get sim appV1 [linuxAmd64] PullAlways ([], wStored))) =
     [pullEv appV1 [linuxAmd64] None, EvStoreGet appV1 (Inr (Image appV1 dApp)),
      EvCheck dApp (Any [linuxAmd64]) (Inr True)] \<and>
   takeWhile (\<lambda>ev. \<not> isLookup ev) (fst (snd (Get sim appV1 [linuxAmd64] PullAlways ([], wStored))))
     = [pullEv appV1 [linuxAmd64] None] \<and>
   registryRef sim appV2 appV2 \<and>
   fst (Transfer sim (NewOCIRegistry appV2) (NewStore appV2 [WithPlatforms [linuxAmd64]]) wPartial)
     = Some (ErrorfW ''failed to resolve reference %q: %w'' [AStr appV2] ErrNotFound) \<and>
   imageStore_Get sim appV2 wPartial = Inr (Image appV2 dApp) \<and>
   fst (Get sim appV2 [linuxAmd64] PullAlways ([], wPartial)) =
     Inl (ErrorfW ''failed to pull %q: %w'' [AStr appV2]
           (ErrorfW ''failed to pull %q: %w'' [AStr appV2]
             (ErrorfW ''failed to resolve reference %q: %w'' [AStr appV2] ErrNotFound))) \<and>
   fst (snd (Get sim appV2 [linuxAmd64] PullAlways ([], wPartial))) =
     [pullEv appV2 [linuxAmd64]
        (Some (ErrorfW ''failed to resolve reference %q: %w'' [AStr appV2] ErrNotFound))]"
proof -
  have r1: "registryRef sim appV1 appV1" by code_simp
  have l1: "imageStore_Get sim appV1 wStored = Inr (Image appV1 dApp)" by code_simp
  have p1: "fst (Transfer sim (NewOCIRegistry appV1) (NewStore appV1 [WithPlatforms [linuxAmd64]])
              wStored) = None"
    by code_simp
  then obtain w1 where
    t1: "Transfer sim (NewOCIRegistry appV1) (NewStore appV1 [WithPlatforms [linuxAmd64]]) wStored
           = (None, w1)"
    by (metis prod.collapse)
  obtain res1 tr1 w1' where
    run1: "Get sim appV1 [linuxAmd64] PullAlways ([], wStored) = (res1, (tr1, w1'))"
    by (rule run_cases)
  have v1: "fst (snd (Get sim appV1 [linuxAmd64] PullAlways ([], wStored))) =
     [pullEv appV1 [linuxAmd64] None, EvStoreGet appV1 (Inr (Image appV1 dApp)),
      EvCheck dApp (Any [linuxAmd64]) (Inr True)]"
    by code_simp
  from Get_always [OF r1 refl t1 run1] run1
  have c1: "takeWhile (\<lambda>ev. \<not> isLookup ev)
              (fst (snd (Get sim appV1 [linuxAmd64] PullAlways ([], wStored))))
            = [pullEv appV1 [linuxAmd64] None]"
    by simp
  have r2: "registryRef sim appV2 appV2" by code_simp
  have l2: "imageStore_Get sim appV2 wPartial = Inr (Image appV2 dApp)" by code_simp
  have p2: "fst (Transfer sim (NewOCIRegistry appV2) (NewStore appV2 [WithPlatforms [linuxAmd64]])
              wPartial)
            = Some (ErrorfW ''failed to resolve reference %q: %w'' [AStr appV2] ErrNotFound)"
    by code_simp
  then obtain w2 where
    t2: "Transfer sim (NewOCIRegistry appV2) (NewStore appV2 [WithPlatforms [linuxAmd64]]) wPartial
           = (Some (ErrorfW ''failed to resolve reference %q: %w'' [AStr appV2] ErrNotFound), w2)"
    by (metis prod.collapse)
  obtain res2 tr2 w2' where
    run2: "Get sim appV2 [linuxAmd64] PullAlways ([], wPartial) = (res2, (tr2, w2'))"
    by (rule run_cases)
  from Get_always [OF r2 refl t2 run2,
        where e = "ErrorfW ''failed to resolve reference %q: %w'' [AStr appV2] ErrNotFound"] run2
  have c2: "fst (Get sim appV2 [linuxAmd64] PullAlways ([], wPartial)) =
     Inl (ErrorfW ''failed to pull %q: %w'' [AStr appV2]
           (ErrorfW ''failed to pull %q: %w'' [AStr appV2]
             (ErrorfW ''failed to resolve reference %q: %w'' [AStr appV2] ErrNotFound)))"
    and c3: "fst (snd (Get sim appV2 [linuxAmd64] PullAlways ([], wPartial))) =
     [pullEv appV2 [linuxAmd64]
        (Some (ErrorfW ''failed to resolve reference %q: %w'' [AStr appV2] ErrNotFound))]"
    by simp_all
  from r1 l1 p1 v1 c1 r2 p2 l2 c2 c3 show ?thesis by blast
qed

subsection \<open>A lookup that fails for another reason than not-found\<close>

text \<open>
  C10. For a registry-kind reference and a recognised policy, if the first store lookup of
  \<open>Get\<close> fails with an error that does not match \<^verbatim>\<open>ErrNotFound\<close>, \<open>Get\<close> returns
  that error wrapped with the name, and the lookup is the last event: the trace is the
  unconditional pull of the policy \<open>always\<close>, if any, and the lookup; no pull and no
  second lookup follow.
\<close>

theorem Get_lookup_error:
  assumes reg: "registryRef g rawRef name"
    and mode: "pullMode \<in> {PullAlways, PullMissing, PullNever}"
    and run: "Get g rawRef plats pullMode ([], w) = (res, (tr, w'))"
    and first: "find isLookup tr = Some (EvStoreGet name (Inl err))"
    and other: "\<not> errors_Is (Some err) ErrNotFound"
  shows "res = Inl (ErrorfW ''failed to get image %q: %w'' [AStr name] err) \<and>
     tr = (if pullMode = PullAlways then [pullEv name plats None] else []) @
          [EvStoreGet name (Inl err)]"
proof -
  let ?pre = "if pullMode = PullAlways then [pullEv name plats None] else []"
  have pre: "filter isLookup ?pre = []"
    by (simp add: pullEv_def)
  obtain perr0 w0 where
    t: "Transfer g (NewOCIRegistry name) (NewStore name [WithPlatforms plats]) w = (perr0, w0)"
    by (cases "Transfer g (NewOCIRegistry name) (NewStore name [WithPlatforms plats]) w")
  have "\<exists>wl. Get_lookup g name plats pullMode (?pre, wl) = (res, (tr, w'))"
  proof (cases "pullMode = PullAlways")
    case False
    with mode reg run show ?thesis
      by (auto simp: Get_def registryRef_def)
  next
    case True
    show ?thesis
    proof (cases perr0)
      case None
      with True reg run t show ?thesis
        by (auto simp: Get_def registryRef_def Pull_run [OF t])
    next
      case (Some e)
      with True reg run t have "tr = [pullEv name plats (Some e)]"
        by (auto simp: Get_def registryRef_def Pull_run [OF t])
      with first show ?thesis
        by (simp add: pullEv_def)
    qed
  qed
  then obtain wl where l: "Get_lookup g name plats pullMode (?pre, wl) = (res, (tr, w'))" ..
  show ?thesis
  proof (cases "imageStore_Get g name wl")
    case (Inr img)
    with l have "Get_checkPlatforms g name plats pullMode img (?pre @ [EvStoreGet name (Inr img)], wl)
                   = (res, (tr, w'))"
      by (simp add: Get_lookup_def)
    from checkPlatforms_extends [OF this] obtain post where
      "tr = (?pre @ [EvStoreGet name (Inr img)]) @ post" ..
    with first have False
      by (simp add: pullEv_def split: if_splits)
    then show ?thesis ..
  next
    case (Inl e)
    with l have hd: "\<exists>post. tr = (?pre @ [EvStoreGet name (Inl e)]) @ post"
      by (auto simp: Get_lookup_def Let_def Pull_def
               split: if_splits prod.splits option.splits sum.splits
               dest!: checkPlatforms_extends)
    with first have "e = err"
      by (auto simp: pullEv_def split: if_splits)
    with Inl l other show ?thesis
      by (simp add: Get_lookup_def Let_def)
  qed
qed

theorem Get_lookup_error_witness:
  "registryRef sim appV1 appV1 \<and>
   \<not> errors_Is (Some (ErrOther ''database not open'')) ErrNotFound \<and>
   PullMissing \<in> {PullAlways, PullMissing, PullNever} \<and>
   find isLookup (fst (snd (Get sim appV1 [linuxAmd64] PullMissing ([], wFault)))) =
     Some (EvStoreGet appV1 (Inl (ErrOther ''database not open''))) \<and>
   fst (Get sim appV1 [linuxAmd64] PullMissing ([], wFault)) =
     Inl (ErrorfW ''failed to get image %q: %w'' [AStr appV1] (ErrOther ''database not open'')) \<and>
   fst (snd (Get sim appV1 [linuxAmd64] PullMissing ([], wFault))) =
     [EvStoreGet appV1 (Inl (ErrOther ''database not open''))] \<and>
   PullAlways \<in> {PullAlways, PullMissing, PullNever} \<and>
   find isLookup (fst (snd (Get sim appV1 [linuxAmd64] PullAlways ([], wFault)))) =
     Some (EvStoreGet appV1 (Inl (ErrOther ''database not open''))) \<and>
   fst (Get sim appV1 [linuxAmd64] PullAlways ([], wFault)) =
     Inl (ErrorfW ''failed to get image %q: %w'' [AStr appV1] (ErrOther ''database not open'')) \<and>
   fst (snd (Get sim appV1 [linuxAmd64] PullAlways ([], wFault))) =
     [pullEv appV1 [linuxAmd64] None, EvStoreGet appV1 (Inl (ErrOther ''database not open''))]"
proof -
  have r: "registryRef sim appV1 appV1" by code_simp
  have n: "\<not> errors_Is (Some (ErrOther ''database not open'')) ErrNotFound" by code_simp
  have m1: "PullMissing \<in> {PullAlways, PullMissing, PullNever}" by simp
  have m2: "PullAlways \<in> {PullAlways, PullMissing, PullNever}" by simp
  obtain res1 tr1 w1 where
    run1: "Get sim appV1 [linuxAmd64] PullMissing ([], wFault) = (res1, (tr1, w1))"
    by (rule run_cases)
  have g1: "find isLookup (fst (snd (Get sim appV1 [linuxAmd64] PullMissing ([], wFault)))) =
     Some (EvStoreGet appV1 (Inl (ErrOther ''database not open'')))"
    by code_simp
  with run1 have f1: "find isLookup tr1 = Some (EvStoreGet appV1 (Inl (ErrOther ''database not open'')))"
    by simp
  from Get_lookup_error [OF r m1 run1 f1 n] run1
  have c1: "fst (Get sim appV1 [linuxAmd64] PullMissing ([], wFault)) =
     Inl (ErrorfW ''failed to get image %q: %w'' [AStr appV1] (ErrOther ''database not open''))"
    and c2: "fst (snd (Get sim appV1 [linuxAmd64] PullMissing ([], wFault))) =
     [EvStoreGet appV1 (Inl (ErrOther ''database not open''))]"
    by simp_all
  obtain res2 tr2 w2 where
    run2: "Get sim appV1 [linuxAmd64] PullAlways ([], wFault) = (res2, (tr2, w2))"
    by (rule run_cases)
  have g2: "find isLookup (fst (snd (Get sim appV1 [linuxAmd64] PullAlways ([], wFault)))) =
     Some (EvStoreGet appV1 (Inl (ErrOther ''database not open'')))"
    by code_simp
  with run2 have f2: "find isLookup tr2 = Some (EvStoreGet appV1 (Inl (ErrOther ''database not open'')))"
    by simp
  from Get_lookup_error [OF r m2 run2 f2 n] run2
  have c3: "fst (Get sim appV1 [linuxAmd64] PullAlways ([], wFault)) =
     Inl (ErrorfW ''failed to get image %q: %w'' [AStr appV1] (ErrOther ''database not open''))"
    and c4: "fst (snd (Get sim appV1 [linuxAmd64] PullAlways ([], wFault))) =
     [pullEv appV1 [linuxAmd64] None, EvStoreGet appV1 (Inl (ErrOther ''database not open''))]"
    by simp_all
  from r n m1 g1 c1 c2 m2 g2 c3 c4 show ?thesis by blast
qed

subsection \<open>Policy missing and a record that is not in the store\<close>

text \<open>
  C2, as stated: on a record that is absent from the store, \<open>Get\<close> under the policy
  \<open>missing\<close> performs exactly one pull attempt followed by exactly one second lookup. It
  is false in two ways. When the record that the pull brings lacks blobs for a requested
  platform, the platform check makes a second pull: in the simulated world the registry
  offers \<open>appV1\<close> for linux/amd64 only; the call asks for linux/amd64 and linux/arm64,
  pulls, looks the record up again, finds it incomplete and pulls again. When the pull
  itself fails, no second lookup is made: no registry offers \<open>appV2\<close>, and the call
  ends after the first lookup and the failed pull.
\<close>

theorem Get_missing_two_pulls_counterexample:
  "imageStore_Get sim appV1 w0 = Inl (ErrorfW ''image %q: %w'' [AStr appV1] ErrNotFound) \<and>
   fst (Get sim appV1 [linuxAmd64, linuxArm64] PullMissing ([], w0)) = Inr (Image appV1 dApp) \<and>
   fst (snd (Get sim appV1 [linuxAmd64, linuxArm64] PullMissing ([], w0))) =
     [EvStoreGet appV1 (Inl (ErrorfW ''image %q: %w'' [AStr appV1] ErrNotFound)),
      pullEv appV1 [linuxAmd64, linuxArm64] None,
      EvStoreGet appV1 (Inr (Image appV1 dApp)),
      EvCheck dApp (Any [linuxAmd64, linuxArm64]) (Inr False),
      pullEv appV1 [linuxAmd64, linuxArm64] None] \<and>
   length (filter isPull (fst (snd (Get sim appV1 [linuxAmd64, linuxArm64] PullMissing ([], w0)))))
     = 2 \<and>
   imageStore_Get sim appV2 w0 = Inl (ErrorfW ''image %q: %w'' [AStr appV2] ErrNotFound) \<and>
   fst (snd (Get sim appV2 [linuxAmd64] PullMissing ([], w0))) =
     [EvStoreGet appV2 (Inl (ErrorfW ''image %q: %w'' [AStr appV2] ErrNotFound)),
      pullEv appV2 [linuxAmd64]
        (Some (ErrorfW ''failed to resolve reference %q: %w'' [AStr appV2] ErrNotFound))] \<and>
   length (filter isLookup (fst (snd (Get sim appV2 [linuxAmd64] PullMissing ([], w0))))) = 1"
  by code_simp

text \<open>
  C2, amended: for a registry-kind reference under the policy \<open>missing\<close> whose first
  lookup fails with an error that matches \<^verbatim>\<open>ErrNotFound\<close>, the lookup is followed by
  exactly one pull. If that pull fails, \<open>Get\<close> returns its error, wrapped, and makes no
  second lookup. If it succeeds, exactly one second lookup follows, and these are the only
  lookups of the call. If the second lookup fails, \<open>Get\<close> fails with the error
  \<^verbatim>\<open>should have pulled ..., but still not accessible in the local store\<close>, which
  differs from the error of a failed first lookup, and the trace ends there: no second
  pull. If the second lookup returns a record, the platform check follows, and the call
  makes a second pull exactly when that check reports the record incomplete.
\<close>

theorem Get_missing_not_found:
  assumes "registryRef g rawRef name" and "pullMode = PullMissing"
    and "imageStore_Get g name w = Inl err" and "errors_Is (Some err) ErrNotFound"
    and "Transfer g (NewOCIRegistry name) (NewStore name [WithPlatforms plats]) w = (perr, w1)"
    and "Get g rawRef plats pullMode ([], w) = (res, (tr, w'))"
  shows "take 2 tr = [EvStoreGet name (Inl err), pullEv name plats perr] \<and>
    (perr = Some e \<longrightarrow>
       tr = [EvStoreGet name (Inl err), pullEv name plats perr] \<and>
       res = Inl (ErrorfW ''failed to pull %q: %w'' [AStr name]
                   (ErrorfW ''failed to pull %q: %w'' [AStr name] e))) \<and>
    (perr = None \<longrightarrow>
       filter isLookup tr =
         [EvStoreGet name (Inl err), EvStoreGet name (imageStore_Get g name w1)] \<and>
       take 3 tr = [EvStoreGet name (Inl err), pullEv name plats None,
                    EvStoreGet name (imageStore_Get g name w1)]) \<and>
    (perr = None \<and> imageStore_Get g name w1 = Inl retryErr \<longrightarrow>
       tr = [EvStoreGet name (Inl err), pullEv name plats None, EvStoreGet name (Inl retryErr)] \<and>
       res = Inl (ErrorfW
                   ''should have pulled %q, but still not accessible in the local store: %w''
                   [AStr name] retryErr) \<and>
       res \<noteq> Inl (ErrorfW ''failed to get image %q: %w'' [AStr name] retryErr)) \<and>
    (perr = None \<and> imageStore_Get g name w1 = Inr img \<longrightarrow>
       length (filter isPull tr) =
         (if images_Check g (Target img) (Any plats) w1 = Inr False then 2 else 1))"
  using assms
  by (auto simp: Get_defs split: sum.splits if_splits option.splits prod.splits)

theorem Get_missing_not_found_witness:
  "registryRef sim appV1 appV1 \<and>
   imageStore_Get sim appV1 wLost = Inl ErrNotFound \<and>
   errors_Is (Some ErrNotFound) ErrNotFound \<and>
   fst (Transfer sim (NewOCIRegistry appV1) (NewStore appV1 [WithPlatforms [linuxAmd64]]) wLost)
     = None \<and>
   fst (Get sim appV1 [linuxAmd64] PullMissing ([], wLost)) =
     Inl (ErrorfW ''should have pulled %q, but still not accessible in the local store: %w''
           [AStr appV1] ErrNotFound) \<and>
   fst (snd (Get sim appV1 [linuxAmd64] PullMissing ([], wLost))) =
     [EvStoreGet appV1 (Inl ErrNotFound), pullEv appV1 [linuxAmd64] None,
      EvStoreGet appV1 (Inl ErrNotFound)] \<and>
   registryRef sim appV2 appV2 \<and>
   imageStore_Get sim appV2 w0 = Inl (ErrorfW ''image %q: %w'' [AStr appV2] ErrNotFound) \<and>
   errors_Is (Some (ErrorfW ''image %q: %w'' [AStr appV2] ErrNotFound)) ErrNotFound \<and>
   fst (Transfer sim (NewOCIRegistry appV2) (NewStore appV2 [WithPlatforms [linuxAmd64]]) w0)
     = Some (ErrorfW ''failed to resolve reference %q: %w'' [AStr appV2] ErrNotFound) \<and>
   fst (Get sim appV2 [linuxAmd64] PullMissing ([], w0)) =
     Inl (ErrorfW ''failed to pull %q: %w'' [AStr appV2]
           (ErrorfW ''failed to pull %q: %w'' [AStr appV2]
             (ErrorfW ''failed to resolve reference %q: %w'' [AStr appV2] ErrNotFound))) \<and>
   fst (snd (Get sim appV2 [linuxAmd64] PullMissing ([], w0))) =
     [EvStoreGet appV2 (Inl (ErrorfW ''image %q: %w'' [AStr appV2] ErrNotFound)),
      pullEv appV2 [linuxAmd64]
        (Some (ErrorfW ''failed to resolve reference %q: %w'' [AStr appV2] ErrNotFound))] \<and>
   imageStore_Get sim appV1 w0 = Inl (ErrorfW ''image %q: %w'' [AStr appV1] ErrNotFound) \<and>
   fst (Get sim appV1 [linuxAmd64] PullMissing ([], w0)) = Inr (Image appV1 dApp) \<and>
   length (filter isPull (fst (snd (Get sim appV1 [linuxAmd64] PullMissing ([], w0))))) = 1 \<and>
   filter isLookup (fst (snd (Get sim appV1 [linuxAmd64] PullMissing ([], w0)))) =
     [EvStoreGet appV1 (Inl (ErrorfW ''image %q: %w'' [AStr appV1] ErrNotFound)),
      EvStoreGet appV1 (Inr (Image appV1 dApp))]"
proof -
  have r1: "registryRef sim appV1 appV1" by code_simp
  have l1: "imageStore_Get sim appV1 wLost = Inl ErrNotFound" by code_simp
  have n1: "errors_Is (Some ErrNotFound) ErrNotFound" by code_simp
  have p1: "fst (Transfer sim (NewOCIRegistry appV1) (NewStore appV1 [WithPlatforms [linuxAmd64]])
              wLost) = None"
    by code_simp
  then obtain w1 where
    t1: "Transfer sim (NewOCIRegistry appV1) (NewStore appV1 [WithPlatforms [linuxAmd64]]) wLost
           = (None, w1)"
    by (metis prod.collapse)
  have "imageStore_Get sim appV1
          (snd (Transfer sim (NewOCIRegistry appV1) (NewStore appV1 [WithPlatforms [linuxAmd64]])
             wLost)) = Inl ErrNotFound"
    by code_simp
  with t1 have l1': "imageStore_Get sim appV1 w1 = Inl ErrNotFound" by simp
  obtain res1 tr1 w1' where
    run1: "Get sim appV1 [linuxAmd64] PullMissing ([], wLost) = (res1, (tr1, w1'))"
    by (rule run_cases)
  from Get_missing_not_found [OF r1 refl l1 n1 t1 run1, where retryErr = ErrNotFound] l1' run1
  have c1: "fst (Get sim appV1 [linuxAmd64] PullMissing ([], wLost)) =
     Inl (ErrorfW ''should have pulled %q, but still not accessible in the local store: %w''
           [AStr appV1] ErrNotFound)"
    and c2: "fst (snd (Get sim appV1 [linuxAmd64] PullMissing ([], wLost))) =
     [EvStoreGet appV1 (Inl ErrNotFound), pullEv appV1 [linuxAmd64] None,
      EvStoreGet appV1 (Inl ErrNotFound)]"
    by simp_all
  have r2: "registryRef sim appV2 appV2" by code_simp
  have l2: "imageStore_Get sim appV2 w0 = Inl (ErrorfW ''image %q: %w'' [AStr appV2] ErrNotFound)"
    by code_simp
  have n2: "errors_Is (Some (ErrorfW ''image %q: %w'' [AStr appV2] ErrNotFound)) ErrNotFound"
    by code_simp
  have p2: "fst (Transfer sim (NewOCIRegistry appV2) (NewStore appV2 [WithPlatforms [linuxAmd64]]) w0)
     = Some (ErrorfW ''failed to resolve reference %q: %w'' [AStr appV2] ErrNotFound)"
    by code_simp
  then obtain w2 where
    t2: "Transfer sim (NewOCIRegistry appV2) (NewStore appV2 [WithPlatforms [linuxAmd64]]) w0
           = (Some (ErrorfW ''failed to resolve reference %q: %w'' [AStr appV2] ErrNotFound), w2)"
    by (metis prod.collapse)
  obtain res2 tr2 w2' where
    run2: "Get sim appV2 [linuxAmd64] PullMissing ([], w0) = (res2, (tr2, w2'))"
    by (rule run_cases)
  from Get_missing_not_found [OF r2 refl l2 n2 t2 run2,
         where e = "ErrorfW ''failed to resolve reference %q: %w'' [AStr appV2] ErrNotFound"] run2
  have c3: "fst (Get sim appV2 [linuxAmd64] PullMissing ([], w0)) =
     Inl (ErrorfW ''failed to pull %q: %w'' [AStr appV2]
           (ErrorfW ''failed to pull %q: %w'' [AStr appV2]
             (ErrorfW ''failed to resolve reference %q: %w'' [AStr appV2] ErrNotFound)))"
    and c4: "fst (snd (Get sim appV2 [linuxAmd64] PullMissing ([], w0))) =
     [EvStoreGet appV2 (Inl (ErrorfW ''image %q: %w'' [AStr appV2] ErrNotFound)),
      pullEv appV2 [linuxAmd64]
        (Some (ErrorfW ''failed to resolve reference %q: %w'' [AStr appV2] ErrNotFound))]"
    by simp_all
  have l3: "imageStore_Get sim appV1 w0 = Inl (ErrorfW ''image %q: %w'' [AStr appV1] ErrNotFound)"
    by code_simp
  have n3: "errors_Is (Some (ErrorfW ''image %q: %w'' [AStr appV1] ErrNotFound)) ErrNotFound"
    by code_simp
  have "fst (Transfer sim (NewOCIRegistry appV1) (NewStore appV1 [WithPlatforms [linuxAmd64]]) w0)
          = None"
    by code_simp
  then obtain w3 where
    t3: "Transfer sim (NewOCIRegistry appV1) (NewStore appV1 [WithPlatforms [linuxAmd64]]) w0
           = (None, w3)"
    by (metis prod.collapse)
  have "imageStore_Get sim appV1
          (snd (Transfer sim (NewOCIRegistry appV1) (NewStore appV1 [WithPlatforms [linuxAmd64]]) w0))
        = Inr (Image appV1 dApp)"
    and "images_Check sim dApp (Any [linuxAmd64])
          (snd (Transfer sim (NewOCIRegistry appV1) (NewStore appV1 [WithPlatforms [linuxAmd64]]) w0))
        = Inr True"
    by code_simp+
  with t3 have l3': "imageStore_Get sim appV1 w3 = Inr (Image appV1 dApp)"
    and k3: "images_Check sim (Target (Image appV1 dApp)) (Any [linuxAmd64]) w3 = Inr True"
    by simp_all
  have v3: "fst (Get sim appV1 [linuxAmd64] PullMissing ([], w0)) = Inr (Image appV1 dApp)"
    by code_simp
  obtain res3 tr3 w3' where
    run3: "Get sim appV1 [linuxAmd64] PullMissing ([], w0) = (res3, (tr3, w3'))"
    by (rule run_cases)
  from Get_missing_not_found [OF r1 refl l3 n3 t3 run3, where img = "Image appV1 dApp"]
    l3' k3 run3
  have c5: "length (filter isPull (fst (snd (Get sim appV1 [linuxAmd64] PullMissing ([], w0))))) = 1"
    and c6: "filter isLookup (fst (snd (Get sim appV1 [linuxAmd64] PullMissing ([], w0)))) =
     [EvStoreGet appV1 (Inl (ErrorfW ''image %q: %w'' [AStr appV1] ErrNotFound)),
      EvStoreGet appV1 (Inr (Image appV1 dApp))]"
    by simp_all
  from r1 l1 n1 p1 c1 c2 r2 l2 n2 p2 c3 c4 l3 v3 c5 c6 show ?thesis by blast
qed

subsection \<open>A record that is incomplete for the requested platforms\<close>

text \<open>
  C4, as stated: when the record is incomplete and the policy is not \<open>never\<close>,
  \<open>Get\<close> makes one corrective pull and then returns the record. It is false when the
  corrective pull fails: \<open>Get\<close> then returns the pull error, not the record. In the
  simulated world the store holds the record of \<open>appV2\<close> without blobs and no registry
  offers \<open>appV2\<close>.
\<close>

theorem Get_incomplete_pull_fails_counterexample:
  "imageStore_Get sim appV2 wPartial = Inr (Image appV2 dApp) \<and>
   images_Check sim dApp (Any [linuxAmd64]) wPartial = Inr False \<and>
   PullMissing \<noteq> PullNever \<and>
   fst (Get sim appV2 [linuxAmd64] PullMissing ([], wPartial)) =
     Inl (ErrorfW ''failed to pull %q: %w'' [AStr appV2]
           (ErrorfW ''failed to pull %q: %w'' [AStr appV2]
             (ErrorfW ''failed to resolve reference %q: %w'' [AStr appV2] ErrNotFound))) \<and>
   fst (snd (Get sim appV2 [linuxAmd64] PullMissing ([], wPartial))) =
     [EvStoreGet appV2 (Inr (Image appV2 dApp)),
      EvCheck dApp (Any [linuxAmd64]) (Inr False),
      pullEv appV2 [linuxAmd64]
        (Some (ErrorfW ''failed to resolve reference %q: %w'' [AStr appV2] ErrNotFound))]"
  by code_simp

text \<open>
  C4, amended: for a registry-kind reference under the policy \<open>always\<close> or
  \<open>missing\<close>, if the platform check of a run of \<open>Get\<close> reports the record incomplete,
  then the run ends with the lookup that returned the record, that check, which is the
  only check of the run and is made with the requested platforms, and exactly one pull of
  the name with the full requested platform list. Nothing follows the pull: the check is
  not repeated and the record is not looked up again. If the pull succeeds \<open>Get\<close> returns
  the record of that lookup; if the pull fails \<open>Get\<close> returns the pull error, wrapped.
\<close>

theorem Get_incomplete:
  assumes reg: "registryRef g rawRef name"
    and mode: "pullMode = PullAlways \<or> pullMode = PullMissing"
    and run: "Get g rawRef plats pullMode ([], w) = (res, (tr, w'))"
    and chk: "EvCheck d m (Inr False) \<in> set tr"
  shows "\<exists>pre img perr.
     tr = pre @ [EvStoreGet name (Inr img), EvCheck (Target img) (Any plats) (Inr False),
                 pullEv name plats perr] \<and>
     d = Target img \<and> m = Any plats \<and> filter isCheck pre = [] \<and>
     (case perr of
        None \<Rightarrow> res = Inr img
      | Some e \<Rightarrow> res = Inl (ErrorfW ''failed to pull %q: %w'' [AStr name]
                              (ErrorfW ''failed to pull %q: %w'' [AStr name] e)))"
proof -
  from chk have nonempty: "filter isCheck tr \<noteq> []"
    by (metis filter_empty_conv isCheck.simps(1))
  from mode have "pullMode \<in> {PullAlways, PullMissing, PullNever}" by auto
  from Get_reaches_lookup [OF reg this run] nonempty
  obtain pre0 wl where "filter isCheck pre0 = []"
     and "Get_lookup g name plats pullMode (pre0, wl) = (res, (tr, w'))" by blast
  from lookup_reaches_check [OF this(2) this(1)] nonempty
  obtain pre img wc where pre: "filter isCheck pre = []"
    and c: "Get_checkPlatforms g name plats pullMode img (pre @ [EvStoreGet name (Inr img)], wc)
              = (res, (tr, w'))"
    by blast
  from mode have nn: "pullMode \<noteq> PullNever" by auto
  from checkPlatforms_run [OF c nn] show ?thesis
  proof (elim disjE exE conjE)
    fix r
    assume "r \<noteq> Inr False"
      and "tr = (pre @ [EvStoreGet name (Inr img)]) @ [EvCheck (Target img) (Any plats) r]"
    with chk pre have False by (auto simp: filter_empty_conv)
    then show ?thesis ..
  next
    fix perr
    assume tr: "tr = (pre @ [EvStoreGet name (Inr img)]) @
                  [EvCheck (Target img) (Any plats) (Inr False), pullEv name plats perr]"
      and res: "case perr of
                  None \<Rightarrow> res = Inr img
                | Some e \<Rightarrow> res = Inl (ErrorfW ''failed to pull %q: %w'' [AStr name]
                                        (ErrorfW ''failed to pull %q: %w'' [AStr name] e))"
    from tr chk pre have "d = Target img \<and> m = Any plats"
      by (auto simp: filter_empty_conv pullEv_def)
    with tr res pre show ?thesis by auto
  qed
qed

theorem Get_incomplete_witness:
  "registryRef sim appV1 appV1 \<and>
   (PullAlways = PullAlways \<or> PullAlways = PullMissing) \<and>
   fst (Get sim appV1 [linuxAmd64, linuxArm64] PullAlways ([], wStored)) = Inr (Image appV1 dApp) \<and>
   fst (snd (Get sim appV1 [linuxAmd64, linuxArm64] PullAlways ([], wStored))) =
     [pullEv appV1 [linuxAmd64, linuxArm64] None] @
     [EvStoreGet appV1 (Inr (Image appV1 dApp)),
      EvCheck dApp (Any [linuxAmd64, linuxArm64]) (Inr False),
      pullEv appV1 [linuxAmd64, linuxArm64] None] \<and>
   EvCheck dApp (Any [linuxAmd64, linuxArm64]) (Inr False)
     \<in> set (fst (snd (Get sim appV1 [linuxAmd64, linuxArm64] PullAlways ([], wStored)))) \<and>
   isPull (last (fst (snd (Get sim appV1 [linuxAmd64, linuxArm64] PullAlways ([], wStored))))) \<and>
   length (filter isCheck
     (fst (snd (Get sim appV1 [linuxAmd64, linuxArm64] PullAlways ([], wStored))))) = 1"
proof -
  have r: "registryRef sim appV1 appV1" by code_simp
  have m: "PullAlways = PullAlways \<or> PullAlways = PullMissing" by simp
  have v1: "fst (Get sim appV1 [linuxAmd64, linuxArm64] PullAlways ([], wStored))
              = Inr (Image appV1 dApp)"
    by code_simp
  have v2: "fst (snd (Get sim appV1 [linuxAmd64, linuxArm64] PullAlways ([], wStored))) =
     [pullEv appV1 [linuxAmd64, linuxArm64] None] @
     [EvStoreGet appV1 (Inr (Image appV1 dApp)),
      EvCheck dApp (Any [linuxAmd64, linuxArm64]) (Inr False),
      pullEv appV1 [linuxAmd64, linuxArm64] None]"
    by code_simp
  obtain res tr w' where
    run: "Get sim appV1 [linuxAmd64, linuxArm64] PullAlways ([], wStored) = (res, (tr, w'))"
    by (rule run_cases)
  with v2 have chk: "EvCheck dApp (Any [linuxAmd64, linuxArm64]) (Inr False) \<in> set tr"
    by simp
  from Get_incomplete [OF r m run chk]
  obtain pre img perr where
    tr: "tr = pre @ [EvStoreGet appV1 (Inr img),
                    EvCheck (Target img) (Any [linuxAmd64, linuxArm64]) (Inr False),
                    pullEv appV1 [linuxAmd64, linuxArm64] perr]"
    and pre: "filter isCheck pre = []"
    by blast
  from tr pre have "isPull (last tr) \<and> length (filter isCheck tr) = 1"
    by (simp add: pullEv_def)
  with run chk
  have c: "EvCheck dApp (Any [linuxAmd64, linuxArm64]) (Inr False)
     \<in> set (fst (snd (Get sim appV1 [linuxAmd64, linuxArm64] PullAlways ([], wStored))))"
    "isPull (last (fst (snd (Get sim appV1 [linuxAmd64, linuxArm64] PullAlways ([], wStored)))))"
    "length (filter isCheck
       (fst (snd (Get sim appV1 [linuxAmd64, linuxArm64] PullAlways ([], wStored))))) = 1"
    by simp_all
  from r m v1 v2 c show ?thesis by blast
qed

subsection \<open>The reader of the export stream\<close>

text \<open>
  C8. When a read of the export stream fails because the handle is already closed (the
  error of the inner reader matches \<^verbatim>\<open>os.ErrClosed\<close>), \<^verbatim>\<open>readerWithEOF.Read\<close>
  reports \<^verbatim>\<open>io.EOF\<close> with the bytes and the world of the inner read; every other
  result of the inner reader is passed on as it is; so the reader never hands an error that
  matches \<^verbatim>\<open>os.ErrClosed\<close> to the decompressor and the import.
\<close>

theorem readerWithEOF_closed_is_EOF:
  assumes "Reader len w = ((p, err), w')"
  shows "(errors_Is err ErrClosed \<longrightarrow> readerWithEOF_Read Reader len w = ((p, Some EOF), w')) \<and>
         (\<not> errors_Is err ErrClosed \<longrightarrow> readerWithEOF_Read Reader len w = ((p, err), w')) \<and>
         \<not> errors_Is (snd (fst (readerWithEOF_Read Reader len w))) ErrClosed"
  using assms by (simp add: readerWithEOF_Read_def errors_Is_def)

text \<open>
  In the simulated world with the handle closed after the last chunk, the inner reader
  fails with a path error that wraps \<^verbatim>\<open>os.ErrClosed\<close>; the wrapped reader reports the
  end of the stream; reading the stream to its end fails on the inner reader and ends
  normally on the wrapped one, and the load of the image succeeds.
\<close>

theorem readerWithEOF_closed_is_EOF_witness:
  "simPipeRead 4096 wClosed = (([], Some (ErrorfW ''read |0: %w'' [] ErrClosed)), wClosed) \<and>
   errors_Is (Some (ErrorfW ''read |0: %w'' [] ErrClosed)) ErrClosed \<and>
   readerWithEOF_Read simPipeRead 4096 wClosed = (([], Some EOF), wClosed) \<and>
   fst (drain 3 simPipeRead (wClosed\<lparr>pipe := [''manifest.json'', ''layer.tar'']\<rparr>)) =
     Some (ErrorfW ''read |0: %w'' [] ErrClosed) \<and>
   fst (drain 3 (readerWithEOF_Read simPipeRead)
          (wClosed\<lparr>pipe := [''manifest.json'', ''layer.tar'']\<rparr>)) = None \<and>
   fst (Get sim ''docker://myimage:latest'' [linuxAmd64] PullMissing ([], wClosed)) =
     Inr (Image ''docker.io/library/myimage:latest'' dMyimage)"
proof -
  have i: "simPipeRead 4096 wClosed = (([], Some (ErrorfW ''read |0: %w'' [] ErrClosed)), wClosed)"
    by code_simp
  have c: "errors_Is (Some (ErrorfW ''read |0: %w'' [] ErrClosed)) ErrClosed"
    by code_simp
  from readerWithEOF_closed_is_EOF [where Reader = simPipeRead and len = 4096 and w = wClosed, OF i] c
  have e: "readerWithEOF_Read simPipeRead 4096 wClosed = (([], Some EOF), wClosed)"
    by blast
  have d1: "fst (drain 3 simPipeRead (wClosed\<lparr>pipe := [''manifest.json'', ''layer.tar'']\<rparr>)) =
     Some (ErrorfW ''read |0: %w'' [] ErrClosed)"
    by code_simp
  have d2: "fst (drain 3 (readerWithEOF_Read simPipeRead)
          (wClosed\<lparr>pipe := [''manifest.json'', ''layer.tar'']\<rparr>)) = None"
    by code_simp
  have g: "fst (Get sim ''docker://myimage:latest'' [linuxAmd64] PullMissing ([], wClosed)) =
     Inr (Image ''docker.io/library/myimage:latest'' dMyimage)"
    by code_simp
  from i c e d1 d2 g show ?thesis by blast
qed

subsection \<open>Loading from a daemon\<close>

lemma docker_myimage:
  "isDocker ''docker://myimage:latest''"
  "TrimPrefix ''docker://myimage:latest'' dockerImagePrefix = ''myimage:latest''"
  by (simp_all add: isDocker_def HasPrefix_def TrimPrefix_def dockerImagePrefix_def)

text \<open>A run of the daemon loader that returns a record has made these eight calls.\<close>

lemma loadDocker_success:
  assumes "loadDocker g daemon name plats ([], w) = (Inr img, (tr, w'))"
  shows "\<exists>r. tr = [EvStdoutPipe [daemon, ''save'', name] None,
                  EvStart [daemon, ''save'', name] None,
                  EvDecompress None, importEv name plats None, EvClose None,
                  EvStoreGet name (Inr img), EvCheck (Target img) (Any plats) (Inr True),
                  EvClose r]"
  using assms
  by (auto simp: daemon_defs split: sum.splits if_splits option.splits prod.splits)

text \<open>
  C6, as stated: for \<^verbatim>\<open>docker://myimage:latest\<close> the subprocess is
  \<^verbatim>\<open><daemon> save myimage:latest\<close>, the store is looked up by the name
  \<^verbatim>\<open>myimage:latest\<close> and the record returned matches that name. It is false where the
  parser rewrites the name: \<open>getDocker\<close> passes on and looks up the canonical form that
  \<^verbatim>\<open>ParseDockerRef\<close> returns, not the text after the prefix. In the simulated world,
  whose parser expands a familiar name as Docker does, the subprocess, the import and the
  lookup all use \<^verbatim>\<open>docker.io/library/myimage:latest\<close>, and no lookup by
  \<^verbatim>\<open>myimage:latest\<close> takes place.
\<close>

theorem Get_docker_myimage_counterexample:
  "ParseDockerRef sim ''myimage:latest'' = Inr ''docker.io/library/myimage:latest'' \<and>
   fst (Get sim ''docker://myimage:latest'' [] PullMissing ([], w0)) =
     Inr (Image ''docker.io/library/myimage:latest'' dMyimage) \<and>
   Name (Image ''docker.io/library/myimage:latest'' dMyimage) \<noteq> ''myimage:latest'' \<and>
   filter isSubprocess (fst (snd (Get sim ''docker://myimage:latest'' [] PullMissing ([], w0)))) =
     [EvStdoutPipe [''docker'', ''save'', ''docker.io/library/myimage:latest''] None,
      EvStart [''docker'', ''save'', ''docker.io/library/myimage:latest''] None] \<and>
   filter isLookup (fst (snd (Get sim ''docker://myimage:latest'' [] PullMissing ([], w0)))) =
     [EvStoreGet ''docker.io/library/myimage:latest''
        (Inr (Image ''docker.io/library/myimage:latest'' dMyimage))]"
  by code_simp

text \<open>
  C6, amended: let \<open>name\<close> be the canonical name that the parser returns for
  \<^verbatim>\<open>myimage:latest\<close> and \<open>daemon\<close> the value of the variable \<^verbatim>\<open>DOCKER\<close>, or
  \<^verbatim>\<open>docker\<close> when it is empty. A call of \<open>Get\<close> on \<^verbatim>\<open>docker://myimage:latest\<close>
  under the policy \<open>missing\<close> that returns a record has created one pipe and started
  one subprocess, with the arguments \<open>daemon save name\<close>, has made one transfer, the
  import of the archive under \<open>name\<close>, and one store lookup, by \<open>name\<close>; the record
  returned is the one that lookup returned. The whole trace is: pipe, start, decompress,
  import, close, lookup, platform check, deferred close.
\<close>

theorem Get_docker_myimage:
  assumes p: "ParseDockerRef g ''myimage:latest'' = Inr name"
    and d: "daemon = (if Getenv g ''DOCKER'' w = [] then ''docker'' else Getenv g ''DOCKER'' w)"
    and run: "Get g ''docker://myimage:latest'' plats PullMissing ([], w) = (Inr img, (tr, w'))"
  shows "filter isSubprocess tr =
           [EvStdoutPipe [daemon, ''save'', name] None, EvStart [daemon, ''save'', name] None] \<and>
         filter isTransfer tr = [importEv name plats None] \<and>
         filter isLookup tr = [EvStoreGet name (Inr img)] \<and>
         take 7 tr =
           [EvStdoutPipe [daemon, ''save'', name] None, EvStart [daemon, ''save'', name] None,
            EvDecompress None, importEv name plats None, EvClose None,
            EvStoreGet name (Inr img), EvCheck (Target img) (Any plats) (Inr True)] \<and>
         length tr = 8"
proof -
  from p d run have "loadDocker g daemon name plats ([], w) = (Inr img, (tr, w'))"
    by (simp add: Get_def docker_myimage getDocker_def Let_def)
  from loadDocker_success [OF this] obtain r where
    "tr = [EvStdoutPipe [daemon, ''save'', name] None,
           EvStart [daemon, ''save'', name] None,
           EvDecompress None, importEv name plats None, EvClose None,
           EvStoreGet name (Inr img), EvCheck (Target img) (Any plats) (Inr True),
           EvClose r]" ..
  then show ?thesis
    by (simp add: importEv_def)
qed

theorem Get_docker_myimage_witness:
  "ParseDockerRef sim ''myimage:latest'' = Inr ''docker.io/library/myimage:latest'' \<and>
   ''docker'' = (if Getenv sim ''DOCKER'' w0 = [] then ''docker'' else Getenv sim ''DOCKER'' w0) \<and>
   fst (Get sim ''docker://myimage:latest'' [linuxAmd64] PullMissing ([], w0)) =
     Inr (Image ''docker.io/library/myimage:latest'' dMyimage) \<and>
   fst (snd (Get sim ''docker://myimage:latest'' [linuxAmd64] PullMissing ([], w0))) =
     [EvStdoutPipe [''docker'', ''save'', ''docker.io/library/myimage:latest''] None,
      EvStart [''docker'', ''save'', ''docker.io/library/myimage:latest''] None,
      EvDecompress None,
      importEv ''docker.io/library/myimage:latest'' [linuxAmd64] None,
      EvClose None,
      EvStoreGet ''docker.io/library/myimage:latest''
        (Inr (Image ''docker.io/library/myimage:latest'' dMyimage)),
      EvCheck dMyimage (Any [linuxAmd64]) (Inr True),
      EvClose None] \<and>
   filter isLookup (fst (snd (Get sim ''docker://myimage:latest'' [linuxAmd64] PullMissing ([], w0))))
     = [EvStoreGet ''docker.io/library/myimage:latest''
          (Inr (Image ''docker.io/library/myimage:latest'' dMyimage))] \<and>
   filter isTransfer (fst (snd (Get sim ''docker://myimage:latest'' [linuxAmd64] PullMissing ([], w0))))
     = [importEv ''docker.io/library/myimage:latest'' [linuxAmd64] None]"
proof -
  have p: "ParseDockerRef sim ''myimage:latest'' = Inr ''docker.io/library/myimage:latest''"
    by code_simp
  have d: "''docker'' = (if Getenv sim ''DOCKER'' w0 = [] then ''docker'' else Getenv sim ''DOCKER'' w0)"
    by code_simp
  have v1: "fst (Get sim ''docker://myimage:latest'' [linuxAmd64] PullMissing ([], w0)) =
     Inr (Image ''docker.io/library/myimage:latest'' dMyimage)"
    by code_simp
  have v2: "fst (snd (Get sim ''docker://myimage:latest'' [linuxAmd64] PullMissing ([], w0))) =
     [EvStdoutPipe [''docker'', ''save'', ''docker.io/library/myimage:latest''] None,
      EvStart [''docker'', ''save'', ''docker.io/library/myimage:latest''] None,
      EvDecompress None,
      importEv ''docker.io/library/myimage:latest'' [linuxAmd64] None,
      EvClose None,
      EvStoreGet ''docker.io/library/myimage:latest''
        (Inr (Image ''docker.io/library/myimage:latest'' dMyimage)),
      EvCheck dMyimage (Any [linuxAmd64]) (Inr True),
      EvClose None]"
    by code_simp
  obtain res tr w' where
    run0: "Get sim ''docker://myimage:latest'' [linuxAmd64] PullMissing ([], w0) = (res, (tr, w'))"
    by (rule run_cases)
  with v1 have run:
    "Get sim ''docker://myimage:latest'' [linuxAmd64] PullMissing ([], w0) =
       (Inr (Image ''docker.io/library/myimage:latest'' dMyimage), (tr, w'))"
    by simp
  from Get_docker_myimage [OF p d run] run
  have c: "filter isLookup
             (fst (snd (Get sim ''docker://myimage:latest'' [linuxAmd64] PullMissing ([], w0))))
           = [EvStoreGet ''docker.io/library/myimage:latest''
                (Inr (Image ''docker.io/library/myimage:latest'' dMyimage))]"
    "filter isTransfer
             (fst (snd (Get sim ''docker://myimage:latest'' [linuxAmd64] PullMissing ([], w0))))
           = [importEv ''docker.io/library/myimage:latest'' [linuxAmd64] None]"
    by simp_all
  from p d v1 v2 c show ?thesis by blast
qed

subsection \<open>A failing export subprocess\<close>

text \<open>No function of the package reads the exit status of the subprocess.\<close>

lemma Pull_ExitStatus: "Pull (g\<lparr>ExitStatus := x\<rparr>) name plats s = Pull g name plats s"
  by (simp add: Pull_def Let_def
        cong del: prod.case_cong_weak sum.case_cong_weak option.case_cong_weak if_weak_cong)

lemma Load_ExitStatus: "Load (g\<lparr>ExitStatus := x\<rparr>) tarR plats name s = Load g tarR plats name s"
  by (simp add: Load_def Let_def
        cong del: prod.case_cong_weak sum.case_cong_weak option.case_cong_weak if_weak_cong)

lemma loadDocker_started_ExitStatus:
  "loadDocker_started (g\<lparr>ExitStatus := x\<rparr>) args name plats s = loadDocker_started g args name plats s"
  by (simp add: loadDocker_started_def Load_ExitStatus Let_def
        cong del: prod.case_cong_weak sum.case_cong_weak option.case_cong_weak if_weak_cong)

lemma loadDocker_ExitStatus:
  "loadDocker (g\<lparr>ExitStatus := x\<rparr>) daemon name plats s = loadDocker g daemon name plats s"
  by (simp add: loadDocker_def loadDocker_started_ExitStatus Let_def
        cong del: prod.case_cong_weak sum.case_cong_weak option.case_cong_weak if_weak_cong)

lemma Get_checkPlatforms_ExitStatus:
  "Get_checkPlatforms (g\<lparr>ExitStatus := x\<rparr>) name plats pullMode img s =
   Get_checkPlatforms g name plats pullMode img s"
  by (simp add: Get_checkPlatforms_def Pull_ExitStatus Let_def
        cong del: prod.case_cong_weak sum.case_cong_weak option.case_cong_weak if_weak_cong)

lemma Get_lookup_ExitStatus:
  "Get_lookup (g\<lparr>ExitStatus := x\<rparr>) name plats pullMode s = Get_lookup g name plats pullMode s"
  by (simp add: Get_lookup_def Pull_ExitStatus Get_checkPlatforms_ExitStatus Let_def
        cong del: prod.case_cong_weak sum.case_cong_weak option.case_cong_weak if_weak_cong)

lemma Get_ExitStatus:
  "Get (g\<lparr>ExitStatus := x\<rparr>) rawRef plats pullMode s = Get g rawRef plats pullMode s"
  by (simp add: Get_def getDocker_def getPodman_def loadDocker_ExitStatus Pull_ExitStatus         Get_lookup_ExitStatus Let_def
        cong del: prod.case_cong_weak sum.case_cong_weak option.case_cong_weak if_weak_cong)

text \<open>
  C7, as stated: if the export subprocess exits abnormally, the daemon load fails with a
  subprocess error. It is false as far as the exit status goes: \<open>loadDocker\<close> starts
  the subprocess and reads its output, and never waits for it, so it never learns the exit
  status. In the simulated world the subprocess writes its archive and ends with exit
  status 1; the load succeeds and returns the record.
\<close>

theorem loadDocker_exit_status_counterexample:
  "isDocker ''docker://myimage:latest'' \<and>
   ExitStatus sim [''docker'', ''save'', ''docker.io/library/myimage:latest''] wExit1 =
     Some (ErrOther ''exit status 1'') \<and>
   ExitStatus sim [''docker'', ''save'', ''docker.io/library/myimage:latest'']
     (snd (snd (Get sim ''docker://myimage:latest'' [linuxAmd64] PullMissing ([], wExit1)))) =
     Some (ErrOther ''exit status 1'') \<and>
   fst (Get sim ''docker://myimage:latest'' [linuxAmd64] PullMissing ([], wExit1)) =
     Inr (Image ''docker.io/library/myimage:latest'' dMyimage)"
  by code_simp

text \<open>
  C7, amended: for a reference with a daemon prefix, if the export subprocess fails to
  start, \<open>Get\<close> fails with the error \<^verbatim>\<open>failed to run\<close>, which carries the arguments
  of the command and wraps the start error, and the call makes no transfer and no store
  lookup. If the subprocess starts and the import of its output fails, \<open>Get\<close> fails with
  the error \<^verbatim>\<open>failed to load an archive\<close>, which carries the arguments of the command
  and wraps the import error, and the call makes no store lookup. The exit status of the
  subprocess is never asked for: the run is the same whatever the subprocess would report.
\<close>

theorem loadDocker_subprocess_failure:
  assumes kind: "isDocker rawRef \<or> isPodman rawRef"
    and run: "Get g rawRef plats pullMode ([], w) = (res, (tr, w'))"
  shows "(EvStart args (Some e) \<in> set tr \<longrightarrow>
            res = Inl (ErrorfW ''failed to run %v: %w'' [AStrs args] e) \<and>
            (\<exists>daemon name. args = [daemon, ''save'', name]) \<and>
            filter isTransfer tr = [] \<and> filter isLookup tr = []) \<and>
         (EvStart args None \<in> set tr \<and> EvTransfer ArchiveImport dst (Some e) \<in> set tr \<longrightarrow>
            res = Inl (ErrorfW ''failed to load an archive (from %v): %w'' [AStrs args]
                        (ErrorfW ''failed to load: %w'' [] e)) \<and>
            filter isLookup tr = []) \<and>
         Get (g\<lparr>ExitStatus := x\<rparr>) rawRef plats pullMode ([], w) = (res, (tr, w'))"
proof -
  have x: "Get (g\<lparr>ExitStatus := x\<rparr>) rawRef plats pullMode ([], w) = Get g rawRef plats pullMode ([], w)"
    by (rule Get_ExitStatus)
  from kind run have
    "\<exists>daemon name. loadDocker g daemon name plats ([], w) = (res, (tr, w')) \<or>
        tr = []"
    by (auto simp: Get_def getDocker_def getPodman_def Let_def split: sum.splits if_splits)
  then obtain daemon name where
    l: "loadDocker g daemon name plats ([], w) = (res, (tr, w')) \<or> tr = []"
    by blast
  have a: "EvStart args (Some e) \<in> set tr \<longrightarrow>
            res = Inl (ErrorfW ''failed to run %v: %w'' [AStrs args] e) \<and>
            (\<exists>daemon name. args = [daemon, ''save'', name]) \<and>
            filter isTransfer tr = [] \<and> filter isLookup tr = []"
    using l
    by (auto simp: daemon_defs split: sum.splits if_splits option.splits prod.splits)
  have b: "EvStart args None \<in> set tr \<and> EvTransfer ArchiveImport dst (Some e) \<in> set tr \<longrightarrow>
            res = Inl (ErrorfW ''failed to load an archive (from %v): %w'' [AStrs args]
                        (ErrorfW ''failed to load: %w'' [] e)) \<and>
            filter isLookup tr = []"
    using l
    by (auto simp: daemon_defs split: sum.splits if_splits option.splits prod.splits)
  from a b x run show ?thesis by simp
qed

theorem loadDocker_subprocess_failure_witness:
  "isDocker ''docker://myimage:latest'' \<and>
   fst (snd (Get sim ''docker://myimage:latest'' [linuxAmd64] PullMissing ([], wNoDaemon))) =
     [EvStdoutPipe [''docker'', ''save'', ''docker.io/library/myimage:latest''] None,
      EvStart [''docker'', ''save'', ''docker.io/library/myimage:latest'']
        (Some (ErrorfW ''exec: %q: %w'' [AStr ''docker'']
                (ErrOther ''executable file not found in $PATH''))),
      EvClose None] \<and>
   fst (Get sim ''docker://myimage:latest'' [linuxAmd64] PullMissing ([], wNoDaemon)) =
     Inl (ErrorfW ''failed to run %v: %w''
           [AStrs [''docker'', ''save'', ''docker.io/library/myimage:latest'']]
           (ErrorfW ''exec: %q: %w'' [AStr ''docker'']
             (ErrOther ''executable file not found in $PATH''))) \<and>
   isPodman ''podman://other:1'' \<and>
   fst (snd (Get sim ''podman://other:1'' [linuxAmd64] PullMissing ([], w0))) =
     [EvStdoutPipe [''podman'', ''save'', ''docker.io/library/other:1''] None,
      EvStart [''podman'', ''save'', ''docker.io/library/other:1''] None,
      EvDecompress None,
      importEv ''docker.io/library/other:1'' [linuxAmd64]
        (Some (ErrOther ''unrecognized image format'')),
      EvClose None] \<and>
   fst (Get sim ''podman://other:1'' [linuxAmd64] PullMissing ([], w0)) =
     Inl (ErrorfW ''failed to load an archive (from %v): %w''
           [AStrs [''podman'', ''save'', ''docker.io/library/other:1'']]
           (ErrorfW ''failed to load: %w'' [] (ErrOther ''unrecognized image format'')))"
proof -
  have k1: "isDocker ''docker://myimage:latest''" by code_simp
  then have k1': "isDocker ''docker://myimage:latest'' \<or> isPodman ''docker://myimage:latest''" ..
  have v1: "fst (snd (Get sim ''docker://myimage:latest'' [linuxAmd64] PullMissing ([], wNoDaemon))) =
     [EvStdoutPipe [''docker'', ''save'', ''docker.io/library/myimage:latest''] None,
      EvStart [''docker'', ''save'', ''docker.io/library/myimage:latest'']
        (Some (ErrorfW ''exec: %q: %w'' [AStr ''docker'']
                (ErrOther ''executable file not found in $PATH''))),
      EvClose None]"
    by code_simp
  obtain res1 tr1 w1 where
    run1: "Get sim ''docker://myimage:latest'' [linuxAmd64] PullMissing ([], wNoDaemon)
             = (res1, (tr1, w1))"
    by (rule run_cases)
  with v1 have s1: "EvStart [''docker'', ''save'', ''docker.io/library/myimage:latest'']
        (Some (ErrorfW ''exec: %q: %w'' [AStr ''docker'']
                (ErrOther ''executable file not found in $PATH''))) \<in> set tr1"
    by simp
  from loadDocker_subprocess_failure [OF k1' run1,
         where args = "[''docker'', ''save'', ''docker.io/library/myimage:latest'']"
           and e = "ErrorfW ''exec: %q: %w'' [AStr ''docker'']
                      (ErrOther ''executable file not found in $PATH'')"] s1 run1
  have c1: "fst (Get sim ''docker://myimage:latest'' [linuxAmd64] PullMissing ([], wNoDaemon)) =
     Inl (ErrorfW ''failed to run %v: %w''
           [AStrs [''docker'', ''save'', ''docker.io/library/myimage:latest'']]
           (ErrorfW ''exec: %q: %w'' [AStr ''docker'']
             (ErrOther ''executable file not found in $PATH'')))"
    by simp
  have k2: "isPodman ''podman://other:1''" by code_simp
  then have k2': "isDocker ''podman://other:1'' \<or> isPodman ''podman://other:1''" ..
  have v2: "fst (snd (Get sim ''podman://other:1'' [linuxAmd64] PullMissing ([], w0))) =
     [EvStdoutPipe [''podman'', ''save'', ''docker.io/library/other:1''] None,
      EvStart [''podman'', ''save'', ''docker.io/library/other:1''] None,
      EvDecompress None,
      importEv ''docker.io/library/other:1'' [linuxAmd64]
        (Some (ErrOther ''unrecognized image format'')),
      EvClose None]"
    by code_simp
  obtain res2 tr2 w2 where
    run2: "Get sim ''podman://other:1'' [linuxAmd64] PullMissing ([], w0) = (res2, (tr2, w2))"
    by (rule run_cases)
  with v2 have s2: "EvStart [''podman'', ''save'', ''docker.io/library/other:1''] None \<in> set tr2 \<and>
     EvTransfer ArchiveImport
       (NewStore ''docker.io/library/other:1''
          [WithPlatforms [linuxAmd64], WithPlatforms [linuxAmd64], WithAllMetadata,
           WithNamedPrefix ''unused'' True])
       (Some (ErrOther ''unrecognized image format'')) \<in> set tr2"
    by (simp add: importEv_def)
  from loadDocker_subprocess_failure [OF k2' run2,
         where args = "[''podman'', ''save'', ''docker.io/library/other:1'']"
           and e = "ErrOther ''unrecognized image format''"
           and dst = "NewStore ''docker.io/library/other:1''
          [WithPlatforms [linuxAmd64], WithPlatforms [linuxAmd64], WithAllMetadata,
           WithNamedPrefix ''unused'' True]"] s2 run2
  have c2: "fst (Get sim ''podman://other:1'' [linuxAmd64] PullMissing ([], w0)) =
     Inl (ErrorfW ''failed to load an archive (from %v): %w''
           [AStrs [''podman'', ''save'', ''docker.io/library/other:1'']]
           (ErrorfW ''failed to load: %w'' [] (ErrOther ''unrecognized image format'')))"
    by simp
  from k1 v1 c1 k2 v2 c2 show ?thesis by blast
qed

subsection \<open>An empty platform list\<close>

lemma platformComplete_empty: "platformComplete present [] = True"
  by (simp add: platformComplete_def)

lemma checkPlatforms_empty:
  assumes "images_Check g = specCheck present"
  shows "Get_checkPlatforms g name [] pullMode img (pre, w) =
           (Inr img, (pre @ [EvCheck (Target img) (Any []) (Inr True)], w))"
  using assms by (simp add: Get_checkPlatforms_def platformComplete_empty)

text \<open>
  C9. Let the completeness check be the one of the specification (a record is complete
  when the platforms with blobs in the store include every requested platform). For every
  call of \<open>Get\<close> with an empty platform list, whatever the reference kind and the
  policy, every platform check of the run is made with the empty list and reports the
  record complete, and the call returns the record that was checked: with an empty list
  \<open>Get\<close> never fails for missing platforms and never makes a corrective pull.
\<close>

theorem Get_empty_platforms:
  assumes chk: "images_Check g = specCheck present"
    and run: "Get g rawRef [] pullMode ([], w) = (res, (tr, w'))"
    and ev: "EvCheck d m r \<in> set tr"
  shows "r = Inr True \<and> m = Any [] \<and> (\<exists>img. res = Inr img \<and> Target img = d) \<and>
         \<not> isPull (last tr)"
proof -
  from ev have nonempty: "filter isCheck tr \<noteq> []"
    by (metis filter_empty_conv isCheck.simps(1))
  have c: "\<And>d m w. images_Check g d m w = specCheck present d m w"
    by (simp add: chk)
  have daemon: "r = Inr True \<and> m = Any [] \<and> (\<exists>img. res = Inr img \<and> Target img = d) \<and>
         \<not> isPull (last tr)"
    if l: "loadDocker g daemon name [] ([], w) = (res, (tr, w'))" for daemon name
  proof -
    from l ev
    have "r = Inr True \<and> m = Any [] \<and> (case res of Inl e \<Rightarrow> False | Inr img \<Rightarrow> Target img = d) \<and>
         \<not> isPull (last tr)"
      by (auto simp: daemon_defs c platformComplete_empty
               split: sum.splits if_splits option.splits prod.splits)
    then show ?thesis by (cases res) auto
  qed
  show ?thesis
  proof (cases "isDocker rawRef \<or> isPodman rawRef")
    case True
    with run ev have "\<exists>daemon name. loadDocker g daemon name [] ([], w) = (res, (tr, w'))"
      by (auto simp: Get_def getDocker_def getPodman_def Let_def split: sum.splits if_splits)
    with daemon show ?thesis by blast
  next
    case False
    with run ev obtain name where p: "ParseDockerRef g rawRef = Inr name"
      by (cases "ParseDockerRef g rawRef") (auto simp: Get_def)
    with False have reg: "registryRef g rawRef name"
      by (simp add: registryRef_def)
    from run ev False p have mode: "pullMode \<in> {PullAlways, PullMissing, PullNever}"
      by (auto simp: Get_def split: if_splits)
    from Get_reaches_lookup [OF reg mode run] nonempty
    obtain pre0 wl where "filter isCheck pre0 = []"
      and "Get_lookup g name [] pullMode (pre0, wl) = (res, (tr, w'))" by blast
    from lookup_reaches_check [OF this(2) this(1)] nonempty
    obtain pre img wc where pre: "filter isCheck pre = []"
      and "Get_checkPlatforms g name [] pullMode img (pre @ [EvStoreGet name (Inr img)], wc)
             = (res, (tr, w'))"
      by blast
    with checkPlatforms_empty [OF chk]
    have "res = Inr img"
      and tr: "tr = (pre @ [EvStoreGet name (Inr img)]) @ [EvCheck (Target img) (Any []) (Inr True)]"
      by auto
    moreover from tr ev pre have "d = Target img \<and> m = Any [] \<and> r = Inr True"
      by (auto simp: filter_empty_conv)
    ultimately show ?thesis by simp
  qed
qed

theorem Get_empty_platforms_witness:
  "images_Check sim = specCheck simPresent \<and>
   fst (Get sim appV2 [] PullNever ([], wPartial)) = Inr (Image appV2 dApp) \<and>
   fst (snd (Get sim appV2 [] PullNever ([], wPartial))) =
     [EvStoreGet appV2 (Inr (Image appV2 dApp)), EvCheck dApp (Any []) (Inr True)] \<and>
   (\<exists>img. fst (Get sim appV2 [] PullNever ([], wPartial)) = Inr img \<and> Target img = dApp) \<and>
   fst (Get sim ''docker://myimage:latest'' [] PullMissing ([], w0)) =
     Inr (Image ''docker.io/library/myimage:latest'' dMyimage) \<and>
   EvCheck dMyimage (Any []) (Inr True)
     \<in> set (fst (snd (Get sim ''docker://myimage:latest'' [] PullMissing ([], w0)))) \<and>
   (\<exists>img. fst (Get sim ''docker://myimage:latest'' [] PullMissing ([], w0)) = Inr img \<and>
      Target img = dMyimage)"
proof -
  have c: "images_Check sim = specCheck simPresent" by (simp add: sim_def)
  have v1: "fst (Get sim appV2 [] PullNever ([], wPartial)) = Inr (Image appV2 dApp)"
    by code_simp
  have v2: "fst (snd (Get sim appV2 [] PullNever ([], wPartial))) =
     [EvStoreGet appV2 (Inr (Image appV2 dApp)), EvCheck dApp (Any []) (Inr True)]"
    by code_simp
  obtain res1 tr1 w1 where
    run1: "Get sim appV2 [] PullNever ([], wPartial) = (res1, (tr1, w1))"
    by (rule run_cases)
  with v2 have e1: "EvCheck dApp (Any []) (Inr True) \<in> set tr1" by simp
  from Get_empty_platforms [OF c run1 e1] run1
  have c1: "\<exists>img. fst (Get sim appV2 [] PullNever ([], wPartial)) = Inr img \<and> Target img = dApp"
    by simp
  have v3: "fst (Get sim ''docker://myimage:latest'' [] PullMissing ([], w0)) =
     Inr (Image ''docker.io/library/myimage:latest'' dMyimage)"
    by code_simp
  have v4: "EvCheck dMyimage (Any []) (Inr True)
     \<in> set (fst (snd (Get sim ''docker://myimage:latest'' [] PullMissing ([], w0))))"
    by code_simp
  obtain res2 tr2 w2 where
    run2: "Get sim ''docker://myimage:latest'' [] PullMissing ([], w0) = (res2, (tr2, w2))"
    by (rule run_cases)
  with v4 have e2: "EvCheck dMyimage (Any []) (Inr True) \<in> set tr2" by simp
  from Get_empty_platforms [OF c run2 e2] run2
  have c2: "\<exists>img. fst (Get sim ''docker://myimage:latest'' [] PullMissing ([], w0)) = Inr img \<and>
      Target img = dMyimage"
    by simp
  from c v1 v2 c1 v3 v4 c2 show ?thesis by blast
qed

end
